theory Spec2Isabelle
  imports Complex_Main
begin

section \<open>JavaScript strings and values\<close>

text \<open>
  A JavaScript string is modelled as a \<^typ>\<open>string\<close>, one \<^typ>\<open>char\<close> per code unit, read as
  Latin-1: code units above 0xFF are outside the model. A value that is a string,
  \<^verbatim>\<open>null\<close> or \<^verbatim>\<open>undefined\<close> is a \<^typ>\<open>string option\<close>, with \<open>None\<close> for both
  \<^verbatim>\<open>null\<close> and \<^verbatim>\<open>undefined\<close>.
\<close>

text \<open>The white space of \<^verbatim>\<open>\s\<close> and of \<^verbatim>\<open>String.prototype.trim\<close> below 0x100:
  TAB, LF, VT, FF, CR, SPACE and NBSP.\<close>

definition is_ws :: "char \<Rightarrow> bool" where
  "is_ws c \<longleftrightarrow> (of_char c :: nat) \<in> {9, 10, 11, 12, 13, 32, 160}"

definition trim :: "string \<Rightarrow> string" where
  "trim s = rev (dropWhile is_ws (rev (dropWhile is_ws s)))"

definition lower_char :: "char \<Rightarrow> char" where
  "lower_char c =
     (let n = (of_char c :: nat) in
      if (65 \<le> n \<and> n \<le> 90) \<or> (192 \<le> n \<and> n \<le> 222 \<and> n \<noteq> 215)
      then char_of (n + 32) else c)"

definition toLowerCase :: "string \<Rightarrow> string" where
  "toLowerCase s = map lower_char s"

text \<open>\<^verbatim>\<open>s.split(/\s+/)\<close>: the pieces between maximal runs of white space, an empty piece
  before a leading run and after a trailing one. The flag says that the previous
  character belonged to a run; the accumulator holds the current piece reversed.\<close>

fun split_ws_from :: "bool \<Rightarrow> string \<Rightarrow> string \<Rightarrow> string list" where
  "split_ws_from inrun acc [] = [rev acc]"
| "split_ws_from inrun acc (c # cs) =
     (if is_ws c
      then (if inrun then split_ws_from True acc cs
            else rev acc # split_ws_from True [] cs)
      else split_ws_from False (c # acc) cs)"

definition split_ws :: "string \<Rightarrow> string list" where
  "split_ws s = split_ws_from False [] s"

text \<open>\<^verbatim>\<open>s.replace(/\s+/g, '*')\<close>: every maximal run of white space becomes one star.\<close>

fun replace_ws_from :: "bool \<Rightarrow> string \<Rightarrow> string" where
  "replace_ws_from inrun [] = []"
| "replace_ws_from inrun (c # cs) =
     (if is_ws c
      then (if inrun then replace_ws_from True cs
            else CHR ''*'' # replace_ws_from True cs)
      else c # replace_ws_from False cs)"

definition replace_ws :: "string \<Rightarrow> string" where
  "replace_ws s = replace_ws_from False s"

text \<open>\<^verbatim>\<open>xs.join(sep)\<close> on an array of strings.\<close>

fun join :: "string \<Rightarrow> string list \<Rightarrow> string" where
  "join sep [] = []"
| "join sep [x] = x"
| "join sep (x # y # ys) = x @ sep @ join sep (y # ys)"

text \<open>Truthiness of a string-or-null value, and \<^verbatim>\<open>a || b\<close> on two such values.\<close>

fun truthy :: "string option \<Rightarrow> bool" where
  "truthy None = False"
| "truthy (Some s) = (s \<noteq> [])"

definition or_else :: "string option \<Rightarrow> string option \<Rightarrow> string option" where
  "or_else a b = (if truthy a then a else b)"

text \<open>\<^verbatim>\<open>x || ''\<close> and \<^verbatim>\<open>xs || []\<close>.\<close>

definition or_empty :: "'a list option \<Rightarrow> 'a list" where
  "or_empty x = (case x of None \<Rightarrow> [] | Some v \<Rightarrow> v)"


section \<open>Data model\<close>

text \<open>The intent record built by \<^verbatim>\<open>understandQuery\<close> (ai-service.js). The record of the
  empty-query branch has no \<^verbatim>\<open>didYouMean\<close> property; reading it gives
  \<^verbatim>\<open>undefined\<close>, here \<open>None\<close>.\<close>

record understanding =
  intent :: string
  category :: "string option"
  keywords_u :: "string list"
  correctedQuery :: "string option"
  expandedTerms :: "string list"
  synonyms :: "string list"
  didYouMean :: "string option"

text \<open>A search result as the \<^verbatim>\<open>/search\<close> handler maps it from an index hit.\<close>

record result =
  res_id :: string
  res_url :: string
  res_title :: string
  res_description :: string
  res_content :: string
  res_page_description :: string
  res_category :: string
  res_last_modified :: string
  res_score :: real

text \<open>
  The outcome of one call of the language-model service, as far as the caller's control
  flow sees it. \<open>Throws\<close>: control reaches the enclosing \<^verbatim>\<open>catch\<close> (the call is
  rejected: no API key, network error, time-out, non-2xx status; or the completion has no
  \<^verbatim>\<open>choices\<close>; or, for a JSON reply, the content parses to \<^verbatim>\<open>null\<close>, whose
  property read raises). \<open>Replied v\<close>: the call returned and \<open>v\<close> is what the caller reads
  from the content. For a JSON reply \<open>v\<close> holds the properties read from the parsed
  object, each absent one as \<open>None\<close>; a missing content and a content that is not JSON
  both give the object with no property, since the source replaces them by
  \<^verbatim>\<open>{}\<close>. Properties are taken to have the type the prompt asks for.
\<close>

datatype 'a reply = Throws | Replied 'a

record parsed_understanding =
  p_intent :: "string option"
  p_category :: "string option"
  p_keywords :: "string list option"
  p_correctedQuery :: "string option"
  p_expandedTerms :: "string list option"
  p_synonyms :: "string list option"
  p_didYouMean :: "string option"


section \<open>The response cache (ai-cache.js)\<close>

text \<open>
  \<^verbatim>\<open>crypto.createHash('md5').update(s).digest('hex')\<close> is a parameter \<open>md5\<close> of every
  function that derives a key. \<^verbatim>\<open>Date.now()\<close> is a parameter too: \<open>now\<close> is the reading
  taken by a lookup, \<open>stored\<close> the reading taken by the store that follows the service call.
  The suggestions cache is not modelled: no function below reads or writes it.
\<close>

record 'a entry =
  data :: 'a
  timestamp :: int

record caches =
  c_understandQuery :: "string \<rightharpoonup> understanding entry"
  c_overview :: "string \<rightharpoonup> string option entry"
  c_ranking :: "string \<rightharpoonup> result list entry"

definition TTL_UNDERSTAND_QUERY :: int where
  "TTL_UNDERSTAND_QUERY = 30 * 60 * 1000"

definition TTL_OVERVIEW :: int where
  "TTL_OVERVIEW = 60 * 60 * 1000"

definition TTL_RANKING :: int where
  "TTL_RANKING = 30 * 60 * 1000"

definition getQueryCacheKey :: "(string \<Rightarrow> string) \<Rightarrow> string \<Rightarrow> string" where
  "getQueryCacheKey md5 query = md5 (trim (toLowerCase query))"

text \<open>\<^verbatim>\<open>r.id || r.url\<close>\<close>

definition result_ident :: "result \<Rightarrow> string" where
  "result_ident r = (if res_id r \<noteq> [] then res_id r else res_url r)"

definition getResultsCacheKey :: "(string \<Rightarrow> string) \<Rightarrow> string \<Rightarrow> result list \<Rightarrow> string" where
  "getResultsCacheKey md5 query results =
     (let normalized = trim (toLowerCase query);
          resultIds = join ''|'' (map result_ident (take 3 results));
          combined = normalized @ ''|'' @ resultIds
      in md5 combined)"

text \<open>\<^verbatim>\<open>!entry || !entry.timestamp\<close> rejects a missing entry and the time stamp 0.\<close>

definition isCacheValid :: "'a entry option \<Rightarrow> int \<Rightarrow> int \<Rightarrow> bool" where
  "isCacheValid e ttl now =
     (case e of None \<Rightarrow> False
      | Some x \<Rightarrow> timestamp x \<noteq> 0 \<and> now - timestamp x < ttl)"

definition getCachedUnderstanding ::
  "(string \<Rightarrow> string) \<Rightarrow> int \<Rightarrow> string \<Rightarrow> caches \<Rightarrow> understanding option \<times> caches" where
  "getCachedUnderstanding md5 now query cs =
     (let key = getQueryCacheKey md5 query;
          cached = c_understandQuery cs key
      in if isCacheValid cached TTL_UNDERSTAND_QUERY now then (map_option data cached, cs)
         else if cached \<noteq> None
         then (None, cs\<lparr>c_understandQuery := (c_understandQuery cs)(key := None)\<rparr>)
         else (None, cs))"

definition cacheUnderstanding ::
  "(string \<Rightarrow> string) \<Rightarrow> int \<Rightarrow> string \<Rightarrow> understanding \<Rightarrow> caches \<Rightarrow> caches" where
  "cacheUnderstanding md5 stored query d cs =
     cs\<lparr>c_understandQuery :=
          (c_understandQuery cs)(getQueryCacheKey md5 query \<mapsto> \<lparr>data = d, timestamp = stored\<rparr>)\<rparr>"

text \<open>The stored overview may be \<^verbatim>\<open>null\<close>: the value returned for such an entry is the
  \<^verbatim>\<open>null\<close> that is also returned when there is no entry.\<close>

definition getCachedOverview ::
  "(string \<Rightarrow> string) \<Rightarrow> int \<Rightarrow> string \<Rightarrow> result list \<Rightarrow> caches \<Rightarrow> string option \<times> caches" where
  "getCachedOverview md5 now query topResults cs =
     (let key = getResultsCacheKey md5 query topResults;
          cached = c_overview cs key
      in if isCacheValid cached TTL_OVERVIEW now
         then ((case cached of None \<Rightarrow> None | Some e \<Rightarrow> data e), cs)
         else if cached \<noteq> None
         then (None, cs\<lparr>c_overview := (c_overview cs)(key := None)\<rparr>)
         else (None, cs))"

definition cacheOverview ::
  "(string \<Rightarrow> string) \<Rightarrow> int \<Rightarrow> string \<Rightarrow> result list \<Rightarrow> string option \<Rightarrow> caches \<Rightarrow> caches" where
  "cacheOverview md5 stored query topResults d cs =
     cs\<lparr>c_overview :=
          (c_overview cs)(getResultsCacheKey md5 query topResults
                            \<mapsto> \<lparr>data = d, timestamp = stored\<rparr>)\<rparr>"

definition getCachedRanking ::
  "(string \<Rightarrow> string) \<Rightarrow> int \<Rightarrow> string \<Rightarrow> result list \<Rightarrow> caches \<Rightarrow> result list option \<times> caches" where
  "getCachedRanking md5 now query results cs =
     (let key = getResultsCacheKey md5 query results;
          cached = c_ranking cs key
      in if isCacheValid cached TTL_RANKING now then (map_option data cached, cs)
         else if cached \<noteq> None
         then (None, cs\<lparr>c_ranking := (c_ranking cs)(key := None)\<rparr>)
         else (None, cs))"

definition cacheRanking ::
  "(string \<Rightarrow> string) \<Rightarrow> int \<Rightarrow> string \<Rightarrow> result list \<Rightarrow> result list \<Rightarrow> caches \<Rightarrow> caches" where
  "cacheRanking md5 stored query results d cs =
     cs\<lparr>c_ranking :=
          (c_ranking cs)(getResultsCacheKey md5 query results
                           \<mapsto> \<lparr>data = d, timestamp = stored\<rparr>)\<rparr>"

text \<open>The caches of a process that has just started.\<close>

definition empty_caches :: caches where
  "empty_caches = \<lparr>c_understandQuery = Map.empty, c_overview = Map.empty, c_ranking = Map.empty\<rparr>"


section \<open>Query understanding (ai-service.js)\<close>

text \<open>
  Each service function returns its value, the caches after the call and the number of
  times it invoked \<^verbatim>\<open>callGroq\<close>. The service is a function from what the prompt is built
  from to the outcome of the call.
\<close>

definition empty_understanding :: understanding where
  "empty_understanding =
     \<lparr>intent = ''search'', category = None, keywords_u = [], correctedQuery = None,
      expandedTerms = [], synonyms = [], didYouMean = None\<rparr>"

definition fallback_understanding :: "string \<Rightarrow> understanding" where
  "fallback_understanding query =
     \<lparr>intent = ''search'', category = None,
      keywords_u = filter (\<lambda>w. length w > 0) (split_ws query),
      correctedQuery = None, expandedTerms = [], synonyms = [], didYouMean = None\<rparr>"

definition normalize_understanding :: "parsed_understanding \<Rightarrow> understanding" where
  "normalize_understanding parsed =
     \<lparr>intent = (if truthy (p_intent parsed) then the (p_intent parsed) else ''search''),
      category = or_else (p_category parsed) None,
      keywords_u = or_empty (p_keywords parsed),
      correctedQuery = or_else (p_correctedQuery parsed) None,
      expandedTerms = or_empty (p_expandedTerms parsed),
      synonyms = or_empty (p_synonyms parsed),
      didYouMean = or_else (p_didYouMean parsed) None\<rparr>"

definition understandQuery ::
  "(string \<Rightarrow> string) \<Rightarrow> (string \<Rightarrow> parsed_understanding reply) \<Rightarrow> int \<Rightarrow> int \<Rightarrow>
   string \<Rightarrow> caches \<Rightarrow> understanding \<times> caches \<times> nat" where
  "understandQuery md5 svc now stored query cs =
     (if query = [] \<or> length (trim query) = 0 then (empty_understanding, cs, 0)
      else case getCachedUnderstanding md5 now query cs of
             (Some cached, cs1) \<Rightarrow> (cached, cs1, 0)
           | (None, cs1) \<Rightarrow>
               (case svc query of
                  Replied parsed \<Rightarrow>
                    (let result = normalize_understanding parsed
                     in (result, cacheUnderstanding md5 stored query result cs1, 1))
                | Throws \<Rightarrow> (fallback_understanding query, cs1, 1)))"


section \<open>Overview and ranking (ai-service.js)\<close>

text \<open>The overview service sees the query, the first five results and the intent; what
  the caller reads is the content of the completion, \<open>None\<close> when it is missing.\<close>

definition generateOverview ::
  "(string \<Rightarrow> string) \<Rightarrow> (string \<Rightarrow> result list \<Rightarrow> string \<Rightarrow> string option reply) \<Rightarrow>
   int \<Rightarrow> int \<Rightarrow> string \<Rightarrow> result list \<Rightarrow> string \<Rightarrow> caches \<Rightarrow> string option \<times> caches \<times> nat" where
  "generateOverview md5 svc now stored query topResults intent_label cs =
     (if query = [] \<or> length topResults = 0 then (None, cs, 0)
      else case getCachedOverview md5 now query topResults cs of
             (Some cached, cs1) \<Rightarrow> (Some cached, cs1, 0)
           | (None, cs1) \<Rightarrow>
               (case svc query (take 5 topResults) intent_label of
                  Replied content \<Rightarrow>
                    (let overview = or_else (map_option trim content) None
                     in (overview, cacheOverview md5 stored query topResults overview cs1, 1))
                | Throws \<Rightarrow> (None, cs1, 1)))"

text \<open>\<^verbatim>\<open>results[idx]\<close>: \<^verbatim>\<open>undefined\<close> outside the array. The indices of the reply are
  taken to be integers.\<close>

definition at_index :: "'a list \<Rightarrow> int \<Rightarrow> 'a option" where
  "at_index xs i = (if 0 \<le> i \<and> nat i < length xs then Some (xs ! nat i) else None)"

text \<open>\<^verbatim>\<open>rankedIndices.map(idx => results[idx]).filter(Boolean)\<close>: a result object is
  truthy, \<^verbatim>\<open>undefined\<close> is dropped.\<close>

definition pick_ranked :: "'a list \<Rightarrow> int list \<Rightarrow> 'a list" where
  "pick_ranked results rankedIndices = List.map_filter (at_index results) rankedIndices"

text \<open>The ranking service sees the query, the results and the intent; what the caller
  reads is the property \<^verbatim>\<open>rankedIndices\<close> of the parsed content.\<close>

definition rankResults ::
  "(string \<Rightarrow> string) \<Rightarrow> (string \<Rightarrow> result list \<Rightarrow> string \<Rightarrow> int list option reply) \<Rightarrow>
   int \<Rightarrow> int \<Rightarrow> string \<Rightarrow> result list \<Rightarrow> string \<Rightarrow> caches \<Rightarrow> result list \<times> caches \<times> nat" where
  "rankResults md5 svc now stored query results intent_label cs =
     (if length results = 0 then (results, cs, 0)
      else case getCachedRanking md5 now query results cs of
             (Some cached, cs1) \<Rightarrow> (cached, cs1, 0)
           | (None, cs1) \<Rightarrow>
               (if length results \<le> 20
                then (case svc query results intent_label of
                        Replied parsed \<Rightarrow>
                          (let rankedIndices = or_empty parsed
                           in if length rankedIndices = length results
                              then (let ranked = pick_ranked results rankedIndices
                                    in (ranked, cacheRanking md5 stored query results ranked cs1, 1))
                              else (results, cacheRanking md5 stored query results results cs1, 1))
                      | Throws \<Rightarrow> (results, cs1, 1))
                else (results, cacheRanking md5 stored query results results cs1, 0)))"


section \<open>The query builder (ai-service.js)\<close>

datatype field = Title | Content | Description | Page_description | Url | Category

text \<open>
  The clauses the builder emits, each with its field, its text and its \<^verbatim>\<open>boost\<close>:
  \<open>Term f v\<close> is \<^verbatim>\<open>{term: {f: v}}\<close>; \<open>Match\<close> carries \<^verbatim>\<open>operator: 'and'\<close>;
  \<open>Match_phrase_prefix\<close> has \<^verbatim>\<open>max_expansions\<close> last; \<open>Wildcard\<close> has
  \<^verbatim>\<open>case_insensitive\<close> last.
\<close>

datatype clause =
    Term field string
  | Match_phrase field string nat
  | Match field string nat
  | Match_phrase_prefix field string nat nat
  | Prefix field string nat
  | Wildcard field string nat bool
  | Match_all

text \<open>\<open>must = None\<close> is \<^verbatim>\<open>must: undefined\<close>.\<close>

record bool_query =
  must :: "clause list option"
  should :: "clause list"
  minimum_should_match :: nat

text \<open>The body of \<^verbatim>\<open>searchTerms.forEach\<close>: the clauses pushed for one term.\<close>

definition termClauses :: "string \<Rightarrow> clause list" where
  "termClauses t =
     (if t \<noteq> [] \<and> length (trim t) > 0
      then [Match_phrase Title t 10, Match_phrase Content t 8,
            Match_phrase Description t 6, Match_phrase Page_description t 7]
         @ [Match Title t 5, Match Content t 3, Match Description t 2,
            Match Page_description t 4]
         @ (if length t \<ge> 3
            then [Match_phrase_prefix Title t 4 50, Prefix Title (toLowerCase t) 3]
            else [])
         @ [Wildcard Url (''*'' @ replace_ws t @ ''*'') 7 True]
      else [])"

definition searchTerms :: "understanding \<Rightarrow> string list" where
  "searchTerms u =
     (let allTerms = filter (\<lambda>t. t \<noteq> []) (keywords_u u @ expandedTerms u @ synonyms u)
      in if length allTerms > 0 then allTerms else keywords_u u)"

definition buildElasticsearchQuery :: "understanding \<Rightarrow> string option \<Rightarrow> bool_query" where
  "buildElasticsearchQuery u categoryFilter =
     (let targetCategory = or_else categoryFilter (category u);
          mustClauses = (if truthy targetCategory \<and> trim (the targetCategory) \<noteq> []
                         then [Term Category (the targetCategory)] else []);
          shouldClauses = concat (map termClauses (searchTerms u))
      in \<lparr>must = (if length mustClauses > 0 then Some mustClauses else None),
          should = (if length shouldClauses > 0 then shouldClauses else [Match_all]),
          minimum_should_match = (if length shouldClauses > 0 then 1 else 0)\<rparr>)"


section \<open>The search handler (elasticsearch-init.js)\<close>

text \<open>
  The request as the handler reads it: \<^verbatim>\<open>req.query.q\<close> and \<^verbatim>\<open>req.query.category\<close>
  (\<open>None\<close> when absent), and the values of \<^verbatim>\<open>parseInt\<close> on the page and the page size
  (\<open>None\<close> for \<^verbatim>\<open>NaN\<close>).
\<close>

record request =
  q :: "string option"
  category_param :: "string option"
  page_param :: "int option"
  pageSize_param :: "int option"

text \<open>An index hit: \<^verbatim>\<open>_id\<close>, the properties of \<^verbatim>\<open>_source\<close> (\<open>None\<close> when absent) and
  \<^verbatim>\<open>_score\<close>.\<close>

record hit =
  h_id :: string
  h_url :: "string option"
  h_title :: "string option"
  h_description :: "string option"
  h_content :: "string option"
  h_page_description :: "string option"
  h_category :: "string option"
  h_last_modified :: "string option"
  h_score :: real

text \<open>The index engine either raises (with a message) or returns the hits and the total
  (\<open>None\<close> when the reply has none); the aggregation either raises or returns the buckets
  (key, \<^verbatim>\<open>doc_count\<close>) and the total.\<close>

datatype es_reply = Es_throws string | Es_hits "hit list" "int option"

datatype agg_reply = Agg_throws | Agg_buckets "(string \<times> int) list" "int option"

record env =
  env_md5 :: "string \<Rightarrow> string"
  understand_svc :: "string \<Rightarrow> parsed_understanding reply"
  rank_svc :: "string \<Rightarrow> result list \<Rightarrow> string \<Rightarrow> int list option reply"
  overview_svc :: "string \<Rightarrow> result list \<Rightarrow> string \<Rightarrow> string option reply"
  es_search :: "bool_query \<Rightarrow> int \<Rightarrow> int \<Rightarrow> es_reply"
  es_aggregate :: "bool_query \<Rightarrow> agg_reply"

text \<open>The readings of \<^verbatim>\<open>Date.now()\<close> during one request: at each cache lookup and at the
  store that follows it.\<close>

record clock =
  t_understand :: int
  t_understand_stored :: int
  t_rank :: int
  t_rank_stored :: int
  t_overview :: int
  t_overview_stored :: int

text \<open>The JSON body of a 200 reply. The reply to a request with neither query nor
  category has no \<^verbatim>\<open>categoryCounts\<close>, \<^verbatim>\<open>pageSize\<close>, \<^verbatim>\<open>intent\<close> and
  \<^verbatim>\<open>understanding\<close>: these are \<open>None\<close> there. \<open>resp_understanding\<close> echoes category,
  keywords and expanded terms.\<close>

record response =
  resp_results :: "result list"
  resp_total :: int
  resp_categoryCounts :: "(string \<rightharpoonup> int) option"
  resp_page :: int
  resp_pageSize :: "int option"
  resp_totalPages :: int
  resp_overview :: "string option"
  resp_didYouMean :: "string option"
  resp_intent :: "string option"
  resp_understanding :: "(string option \<times> string list \<times> string list) option"

text \<open>What a request did besides replying: the caches it leaves, the number of calls of
  each language-model service and the query it sent to the index engine.\<close>

record trace =
  caches_after :: caches
  understand_calls :: nat
  rank_calls :: nat
  overview_calls :: nat
  sent_query :: "bool_query option"

text \<open>\<^verbatim>\<open>parseInt(x) || d\<close>: \<^verbatim>\<open>NaN\<close> and 0 give the default.\<close>

definition int_or :: "int option \<Rightarrow> int \<Rightarrow> int" where
  "int_or x d = (case x of None \<Rightarrow> d | Some n \<Rightarrow> if n = 0 then d else n)"

text \<open>\<^verbatim>\<open>xs.slice(0, n)\<close>: a negative \<open>n\<close> counts from the end.\<close>

definition slice0 :: "'a list \<Rightarrow> int \<Rightarrow> 'a list" where
  "slice0 xs n = (if 0 \<le> n then take (nat n) xs else take (length xs - nat (- n)) xs)"

definition map_hit :: "hit \<Rightarrow> result" where
  "map_hit h =
     \<lparr>res_id = h_id h,
      res_url = or_empty (h_url h),
      res_title = or_empty (h_title h),
      res_description = or_empty (h_description h),
      res_content = or_empty (or_else (h_content h) (h_page_description h)),
      res_page_description = or_empty (h_page_description h),
      res_category = or_empty (h_category h),
      res_last_modified = or_empty (h_last_modified h),
      res_score = h_score h\<rparr>"

text \<open>The constant \<^verbatim>\<open>targetCategory\<close> of the handler.\<close>

definition targetCategory :: "string \<Rightarrow> understanding \<Rightarrow> string option" where
  "targetCategory categoryParam u =
     (let shouldUseDetectedCategory =
            (intent u = ''category-keyword'' \<or> intent u = ''category-only'')
      in or_else (Some categoryParam) (if shouldUseDetectedCategory then category u else None))"

definition count_categories :: "agg_reply \<Rightarrow> (string \<rightharpoonup> int)" where
  "count_categories r =
     (case r of
        Agg_throws \<Rightarrow> Map.empty
      | Agg_buckets buckets agg_total \<Rightarrow>
          (fold (\<lambda>b m. m(fst b \<mapsto> snd b)) buckets Map.empty)
            ([] \<mapsto> (case agg_total of None \<Rightarrow> 0 | Some n \<Rightarrow> n)))"

text \<open>
  The handler of \<^verbatim>\<open>GET /search\<close>. \<open>Inl msg\<close> is the reply with status 500 that the outer
  \<^verbatim>\<open>catch\<close> sends. The \<^verbatim>\<open>catch\<close> around \<^verbatim>\<open>understandQuery\<close> and the one around
  \<^verbatim>\<open>generateOverview\<close> are never entered, since neither function raises; the logging of
  the query to the content store sits in a \<^verbatim>\<open>try\<close> of its own and does not touch the
  reply, so it is left out. \<^verbatim>\<open>Math.ceil(total / pageSize)\<close> is written with integer
  division, which rounds down.
\<close>

definition search :: "env \<Rightarrow> clock \<Rightarrow> request \<Rightarrow> caches \<Rightarrow> (string + response) \<times> trace" where
  "search e t req cs =
     (let query = or_empty (q req);
          categoryParam = or_empty (category_param req);
          page = int_or (page_param req) 1;
          pageSize = int_or (pageSize_param req) 10;
          from = (page - 1) * pageSize
      in if query = [] \<and> categoryParam = []
         then (Inr \<lparr>resp_results = [], resp_total = 0, resp_categoryCounts = None,
                    resp_page = 1, resp_pageSize = None, resp_totalPages = 0,
                    resp_overview = None, resp_didYouMean = None, resp_intent = None,
                    resp_understanding = None\<rparr>,
               \<lparr>caches_after = cs, understand_calls = 0, rank_calls = 0,
                overview_calls = 0, sent_query = None\<rparr>)
         else
           (case understandQuery (env_md5 e) (understand_svc e) (t_understand t)
                   (t_understand_stored t) query cs of
              (u, cs1, n_u) \<Rightarrow>
                (let esQuery = buildElasticsearchQuery u (targetCategory categoryParam u)
                 in case es_search e esQuery (min (pageSize * 2) 100) from of
                      Es_throws msg \<Rightarrow>
                        (Inl msg,
                         \<lparr>caches_after = cs1, understand_calls = n_u, rank_calls = 0,
                          overview_calls = 0, sent_query = Some esQuery\<rparr>)
                    | Es_hits hitsArray hits_total \<Rightarrow>
                        (let mapped = map map_hit hitsArray
                         in case (if length mapped > 0 \<and> length (trim query) > 0
                                  then rankResults (env_md5 e) (rank_svc e) (t_rank t)
                                         (t_rank_stored t) query mapped (intent u) cs1
                                  else (mapped, cs1, 0)) of
                              (ranked, cs2, n_r) \<Rightarrow>
                                (let sliced = slice0 ranked pageSize
                                 in case (if page = 1 \<and> length (trim query) > 0
                                              \<and> length sliced > 0
                                          then generateOverview (env_md5 e) (overview_svc e)
                                                 (t_overview t) (t_overview_stored t) query
                                                 sliced (intent u) cs2
                                          else (None, cs2, 0)) of
                                      (overview, cs3, n_o) \<Rightarrow>
                                        (let total = (case hits_total of None \<Rightarrow> 0
                                                      | Some n \<Rightarrow> n);
                                             categoryCounts =
                                               count_categories (es_aggregate e esQuery);
                                             totalPages = - ((- total) div pageSize)
                                         in (Inr \<lparr>resp_results = sliced,
                                                   resp_total = total,
                                                   resp_categoryCounts = Some categoryCounts,
                                                   resp_page = page,
                                                   resp_pageSize = Some pageSize,
                                                   resp_totalPages = totalPages,
                                                   resp_overview = overview,
                                                   resp_didYouMean =
                                                     or_else (or_else (didYouMean u)
                                                                (correctedQuery u)) None,
                                                   resp_intent = Some (intent u),
                                                   resp_understanding =
                                                     Some (category u, keywords_u u,
                                                           expandedTerms u)\<rparr>,
                                             \<lparr>caches_after = cs3, understand_calls = n_u,
                                              rank_calls = n_r, overview_calls = n_o,
                                              sent_query = Some esQuery\<rparr>)))))))"


section \<open>Scenarios and sample inputs\<close>

text \<open>A stand-in for the digest in concrete evaluations: the identity, which has no
  collisions, so every key it makes equal is equal under any digest.\<close>

definition plain_digest :: "string \<Rightarrow> string" where
  "plain_digest s = s"

text \<open>An understanding service that is down, and one that answers.\<close>

definition understanding_down :: "string \<Rightarrow> parsed_understanding reply" where
  "understanding_down query = Throws"

definition spm_parsed :: parsed_understanding where
  "spm_parsed =
     \<lparr>p_intent = Some ''search'', p_category = None, p_keywords = Some [''spm''],
      p_correctedQuery = None, p_expandedTerms = Some [''Strategic Portfolio Management''],
      p_synonyms = None, p_didYouMean = None\<rparr>"

definition understanding_up :: "string \<Rightarrow> parsed_understanding reply" where
  "understanding_up query = Replied spm_parsed"

text \<open>Caches that already hold the understanding of another query.\<close>

definition warm_caches :: caches where
  "warm_caches =
     cacheUnderstanding plain_digest 500 ''spm'' (normalize_understanding spm_parsed) empty_caches"

text \<open>Two calls of \<^verbatim>\<open>understandQuery\<close> on the same query, one after the other: the values
  returned, the number of service calls of both together and the caches in between.\<close>

record two_calls =
  first_value :: understanding
  second_value :: understanding
  service_calls :: nat
  caches_between :: caches

definition understandQuery_twice ::
  "(string \<Rightarrow> string) \<Rightarrow> (string \<Rightarrow> parsed_understanding reply) \<Rightarrow> int \<Rightarrow> int \<Rightarrow>
   (string \<Rightarrow> parsed_understanding reply) \<Rightarrow> int \<Rightarrow> int \<Rightarrow> string \<Rightarrow> caches \<Rightarrow> two_calls" where
  "understandQuery_twice md5 svc1 now1 stored1 svc2 now2 stored2 query cs =
     (case understandQuery md5 svc1 now1 stored1 query cs of
        (r1, cs1, n1) \<Rightarrow>
          (case understandQuery md5 svc2 now2 stored2 query cs1 of
             (r2, cs2, n2) \<Rightarrow>
               \<lparr>first_value = r1, second_value = r2, service_calls = n1 + n2,
                caches_between = cs1\<rparr>))"

text \<open>Result pages that differ in their identifier.\<close>

definition page_of :: "string \<Rightarrow> result" where
  "page_of name =
     \<lparr>res_id = name, res_url = ''https://www.i2econsulting.com/'' @ name, res_title = name,
      res_description = [], res_content = [], res_page_description = [],
      res_category = ''blogs'', res_last_modified = [], res_score = 1\<rparr>"



text \<open>Ranking services: one repeats an index, one names an index outside the list, one
  reverses the list, one is down.\<close>

definition ranking_repeats :: "string \<Rightarrow> result list \<Rightarrow> string \<Rightarrow> int list option reply" where
  "ranking_repeats query rs intent_label = Replied (Some [0, 0])"

definition ranking_out_of_range :: "string \<Rightarrow> result list \<Rightarrow> string \<Rightarrow> int list option reply" where
  "ranking_out_of_range query rs intent_label = Replied (Some [1, 5])"

definition ranking_reverses :: "string \<Rightarrow> result list \<Rightarrow> string \<Rightarrow> int list option reply" where
  "ranking_reverses query rs intent_label = Replied (Some (rev (map int [0 ..< length rs])))"

definition ranking_down :: "string \<Rightarrow> result list \<Rightarrow> string \<Rightarrow> int list option reply" where
  "ranking_down query rs intent_label = Throws"

text \<open>An overview service that is down, one that returns a completion without content,
  and one that answers.\<close>

definition overview_down :: "string \<Rightarrow> result list \<Rightarrow> string \<Rightarrow> string option reply" where
  "overview_down query rs intent_label = Throws"

definition overview_silent :: "string \<Rightarrow> result list \<Rightarrow> string \<Rightarrow> string option reply" where
  "overview_silent query rs intent_label = Replied None"

definition overview_up :: "string \<Rightarrow> result list \<Rightarrow> string \<Rightarrow> string option reply" where
  "overview_up query rs intent_label = Replied (Some '' i2e offers SPM services. '')"

text \<open>Reading a clause: the tier it belongs to (the four groups of per-term clauses of
  the builder), its field and its boost (0 for the two clauses that have none).\<close>

datatype tier = Exact_phrase | Full_match | Prefix_tier | Wildcard_tier

fun tier_of :: "clause \<Rightarrow> tier option" where
  "tier_of (Match_phrase f t b) = Some Exact_phrase"
| "tier_of (Match f t b) = Some Full_match"
| "tier_of (Match_phrase_prefix f t b m) = Some Prefix_tier"
| "tier_of (Prefix f t b) = Some Prefix_tier"
| "tier_of (Wildcard f t b ci) = Some Wildcard_tier"
| "tier_of (Term f t) = None"
| "tier_of Match_all = None"

fun clause_field :: "clause \<Rightarrow> field option" where
  "clause_field (Match_phrase f t b) = Some f"
| "clause_field (Match f t b) = Some f"
| "clause_field (Match_phrase_prefix f t b m) = Some f"
| "clause_field (Prefix f t b) = Some f"
| "clause_field (Wildcard f t b ci) = Some f"
| "clause_field (Term f t) = Some f"
| "clause_field Match_all = None"

fun boost :: "clause \<Rightarrow> nat" where
  "boost (Match_phrase f t b) = b"
| "boost (Match f t b) = b"
| "boost (Match_phrase_prefix f t b m) = b"
| "boost (Prefix f t b) = b"
| "boost (Wildcard f t b ci) = b"
| "boost (Term f t) = 0"
| "boost Match_all = 0"

text \<open>An understanding with a term of two characters and one of three.\<close>

definition short_and_long :: understanding where
  "short_and_long = fallback_understanding ''ai spm''"

text \<open>Requests, an index engine without documents and the clock of one request.\<close>

definition blogs_req :: request where
  "blogs_req =
     \<lparr>q = Some [], category_param = Some ''blogs'', page_param = Some 1,
      pageSize_param = Some 10\<rparr>"

definition no_hits :: "bool_query \<Rightarrow> int \<Rightarrow> int \<Rightarrow> es_reply" where
  "no_hits query n offset = Es_hits [] (Some 0)"

definition no_buckets :: "bool_query \<Rightarrow> agg_reply" where
  "no_buckets query = Agg_buckets [] (Some 0)"

definition quiet_env :: env where
  "quiet_env =
     \<lparr>env_md5 = plain_digest, understand_svc = understanding_up, rank_svc = ranking_down,
      overview_svc = overview_down, es_search = no_hits, es_aggregate = no_buckets\<rparr>"

definition noon :: clock where
  "noon =
     \<lparr>t_understand = 1000, t_understand_stored = 1001, t_rank = 1002, t_rank_stored = 1003,
      t_overview = 1004, t_overview_stored = 1005\<rparr>"

text \<open>An understanding service that detects a category for a plain search, and one that
  corrects a misspelt query.\<close>

definition blogs_parsed :: parsed_understanding where
  "blogs_parsed =
     \<lparr>p_intent = Some ''search'', p_category = Some ''blogs'', p_keywords = Some [''ppm''],
      p_correctedQuery = None, p_expandedTerms = None, p_synonyms = None,
      p_didYouMean = None\<rparr>"

definition understanding_blogs :: "string \<Rightarrow> parsed_understanding reply" where
  "understanding_blogs query = Replied blogs_parsed"

definition typo_parsed :: parsed_understanding where
  "typo_parsed =
     \<lparr>p_intent = Some ''search'', p_category = None, p_keywords = Some [''clinical''],
      p_correctedQuery = Some ''clinical'', p_expandedTerms = None, p_synonyms = None,
      p_didYouMean = Some ''clinical''\<rparr>"

definition understanding_typo :: "string \<Rightarrow> parsed_understanding reply" where
  "understanding_typo query = Replied typo_parsed"

definition ppm_req :: request where
  "ppm_req =
     \<lparr>q = Some ''ppm'', category_param = None, page_param = Some 1,
      pageSize_param = Some 10\<rparr>"

definition page2_req :: request where
  "page2_req =
     \<lparr>q = Some ''clincal'', category_param = None, page_param = Some 2,
      pageSize_param = Some 10\<rparr>"

text \<open>An index engine with two documents, the environment of the misspelt query and the
  reply to its second page.\<close>

definition hit_of :: "string \<Rightarrow> hit" where
  "hit_of name =
     \<lparr>h_id = name, h_url = Some (''https://www.i2econsulting.com/'' @ name),
      h_title = Some name, h_description = None, h_content = None,
      h_page_description = None, h_category = Some ''blogs'', h_last_modified = None,
      h_score = 1\<rparr>"

definition two_hits :: "bool_query \<Rightarrow> int \<Rightarrow> int \<Rightarrow> es_reply" where
  "two_hits query n offset = Es_hits [hit_of ''a'', hit_of ''b''] (Some 12)"

definition typo_env :: env where
  "typo_env =
     \<lparr>env_md5 = plain_digest, understand_svc = understanding_typo, rank_svc = ranking_down,
      overview_svc = overview_up, es_search = two_hits, es_aggregate = no_buckets\<rparr>"

definition page2_response :: response where
  "page2_response =
     \<lparr>resp_results = [page_of ''a'', page_of ''b''], resp_total = 12,
      resp_categoryCounts = Some (count_categories (Agg_buckets [] (Some 0))),
      resp_page = 2, resp_pageSize = Some 10, resp_totalPages = 2, resp_overview = None,
      resp_didYouMean = Some ''clinical'', resp_intent = Some ''search'',
      resp_understanding = Some (None, [''clinical''], [])\<rparr>"

text \<open>Caches that hold an overview for the query \<^verbatim>\<open>spm\<close> and the result a.\<close>

definition told_caches :: caches where
  "told_caches =
     cacheOverview plain_digest 1001 ''spm'' [page_of ''a'']
       (Some ''i2e offers SPM services.'') empty_caches"

text \<open>What the caller reads from a completion whose content is missing or is not JSON: the
  object without properties. An understanding service that answers with such a
  completion.\<close>

definition no_properties :: parsed_understanding where
  "no_properties =
     \<lparr>p_intent = None, p_category = None, p_keywords = None, p_correctedQuery = None,
      p_expandedTerms = None, p_synonyms = None, p_didYouMean = None\<rparr>"

definition understanding_garbled :: "string \<Rightarrow> parsed_understanding reply" where
  "understanding_garbled query = Replied no_properties"

text \<open>The environment of a request for the category \<^verbatim>\<open>blogs\<close> alone, whose index engine
  has two documents of that category, and the reply to that request.\<close>

definition blogs_env :: env where
  "blogs_env =
     \<lparr>env_md5 = plain_digest, understand_svc = understanding_up, rank_svc = ranking_reverses,
      overview_svc = overview_up, es_search = two_hits, es_aggregate = no_buckets\<rparr>"

definition blogs_response :: response where
  "blogs_response =
     \<lparr>resp_results = [page_of ''a'', page_of ''b''], resp_total = 12,
      resp_categoryCounts = Some (count_categories (Agg_buckets [] (Some 0))),
      resp_page = 1, resp_pageSize = Some 10, resp_totalPages = 2, resp_overview = None,
      resp_didYouMean = None, resp_intent = Some ''search'',
      resp_understanding = Some (None, [], [])\<rparr>"


section \<open>Facts about strings and the sample inputs\<close>

lemma trim_nonempty: "trim s \<noteq> [] \<Longrightarrow> s \<noteq> []"
  by (auto simp: trim_def)

lemma concat_split_ws_from:
  "concat (split_ws_from b acc s) = rev acc @ filter (\<lambda>c. \<not> is_ws c) s"
  by (induction s arbitrary: b acc) simp_all

lemma split_ws_from_no_ws:
  "\<forall>c \<in> set acc. \<not> is_ws c
   \<Longrightarrow> \<forall>w \<in> set (split_ws_from b acc s). \<forall>c \<in> set w. \<not> is_ws c"
proof (induction s arbitrary: b acc)
  case Nil
  then show ?case by simp
next
  case (Cons a s)
  have e: "\<forall>c \<in> set ([]::string). \<not> is_ws c" by simp
  show ?case
  proof (cases "is_ws a")
    case True
    with Cons.IH[OF Cons.prems, of True] Cons.IH[OF e, of True] Cons.prems show ?thesis
      by (cases b) auto
  next
    case False
    with Cons.prems have "\<forall>c \<in> set (a # acc). \<not> is_ws c" by simp
    from Cons.IH[OF this, of False] False show ?thesis by simp
  qed
qed

lemma concat_nonempty: "concat (filter (\<lambda>w. w \<noteq> []) xs) = concat xs"
  by (induction xs) auto

text \<open>The non-empty pieces of a split are the words of the string: together they are
  its characters that are not white space, and none is empty or has white space in it.\<close>

lemma split_ws_words:
  "concat (filter (\<lambda>w. w \<noteq> []) (split_ws s)) = filter (\<lambda>c. \<not> is_ws c) s"
  "\<forall>w \<in> set (filter (\<lambda>w. w \<noteq> []) (split_ws s)). w \<noteq> [] \<and> (\<forall>c \<in> set w. \<not> is_ws c)"
proof -
  show "concat (filter (\<lambda>w. w \<noteq> []) (split_ws s)) = filter (\<lambda>c. \<not> is_ws c) s"
    by (simp add: concat_nonempty split_ws_def concat_split_ws_from)
  show "\<forall>w \<in> set (filter (\<lambda>w. w \<noteq> []) (split_ws s)). w \<noteq> [] \<and> (\<forall>c \<in> set w. \<not> is_ws c)"
    using split_ws_from_no_ws[of "[]" False s] by (auto simp: split_ws_def)
qed

lemma page_of_inject: "page_of a = page_of b \<longleftrightarrow> a = b"
  by (auto simp: page_of_def)

lemma map_hit_hit_of: "map_hit (hit_of name) = page_of name"
  by (simp add: map_hit_def hit_of_def page_of_def or_empty_def or_else_def)



lemma key_spm_a: "getResultsCacheKey plain_digest ''spm'' [page_of ''a''] = ''spm|a''"
  by (simp add: getResultsCacheKey_def plain_digest_def result_ident_def page_of_def Let_def
        trim_def toLowerCase_def lower_char_def is_ws_def)

lemma key_spm_ab:
  "getResultsCacheKey plain_digest ''spm'' [page_of ''a'', page_of ''b''] = ''spm|a|b''"
  by (simp add: getResultsCacheKey_def plain_digest_def result_ident_def page_of_def Let_def
        trim_def toLowerCase_def lower_char_def is_ws_def)



lemma normalize_typo:
  "normalize_understanding typo_parsed
     = \<lparr>intent = ''search'', category = None, keywords_u = [''clinical''],
        correctedQuery = Some ''clinical'', expandedTerms = [], synonyms = [],
        didYouMean = Some ''clinical''\<rparr>"
  by (simp add: normalize_understanding_def typo_parsed_def or_else_def or_empty_def)

lemma normalize_blogs:
  "normalize_understanding blogs_parsed
     = \<lparr>intent = ''search'', category = Some ''blogs'', keywords_u = [''ppm''],
        correctedQuery = None, expandedTerms = [], synonyms = [], didYouMean = None\<rparr>"
  by (simp add: normalize_understanding_def blogs_parsed_def or_else_def or_empty_def)

lemma searchTerms_short_and_long: "searchTerms short_and_long = [''ai'', ''spm'']"
  by (simp add: searchTerms_def short_and_long_def fallback_understanding_def split_ws_def
        is_ws_def)

lemma termClauses_ai:
  "termClauses ''ai'' =
     [Match_phrase Title ''ai'' 10, Match_phrase Content ''ai'' 8,
      Match_phrase Description ''ai'' 6, Match_phrase Page_description ''ai'' 7,
      Match Title ''ai'' 5, Match Content ''ai'' 3, Match Description ''ai'' 2,
      Match Page_description ''ai'' 4, Wildcard Url ''*ai*'' 7 True]"
  by (simp add: termClauses_def trim_def is_ws_def replace_ws_def)

lemma termClauses_spm:
  "termClauses ''spm'' =
     [Match_phrase Title ''spm'' 10, Match_phrase Content ''spm'' 8,
      Match_phrase Description ''spm'' 6, Match_phrase Page_description ''spm'' 7,
      Match Title ''spm'' 5, Match Content ''spm'' 3, Match Description ''spm'' 2,
      Match Page_description ''spm'' 4, Match_phrase_prefix Title ''spm'' 4 50,
      Prefix Title ''spm'' 3, Wildcard Url ''*spm*'' 7 True]"
  by (simp add: termClauses_def trim_def is_ws_def replace_ws_def toLowerCase_def
        lower_char_def)

lemma should_short_and_long:
  "should (buildElasticsearchQuery short_and_long None)
     = termClauses ''ai'' @ termClauses ''spm''"
  by (simp add: buildElasticsearchQuery_def Let_def searchTerms_short_and_long
        termClauses_def trim_def is_ws_def)


section \<open>Query understanding: fallback and caching\<close>

lemma understandQuery_blank:
  "trim query = []
   \<Longrightarrow> understandQuery digest svc now stored query cs = (empty_understanding, cs, 0)"
  by (simp add: understandQuery_def)

lemma understandQuery_fresh_reply:
  assumes "trim query \<noteq> []" and "svc query = Replied parsed"
  shows "understandQuery digest svc now stored query empty_caches
           = (normalize_understanding parsed,
              cacheUnderstanding digest stored query (normalize_understanding parsed)
                empty_caches,
              1)"
  using assms trim_nonempty[OF assms(1)]
  by (simp add: understandQuery_def getCachedUnderstanding_def empty_caches_def
        isCacheValid_def Let_def)

lemma understandQuery_miss_throws:
  assumes "trim query \<noteq> []"
      and "\<not> isCacheValid (c_understandQuery cs (getQueryCacheKey digest query))
               TTL_UNDERSTAND_QUERY now"
      and "svc query = Throws"
  shows "understandQuery digest svc now stored query cs =
           (fallback_understanding query,
            cs\<lparr>c_understandQuery := (c_understandQuery cs)(getQueryCacheKey digest query := None)\<rparr>,
            1)"
  using assms trim_nonempty[OF assms(1)]
  by (auto simp: understandQuery_def getCachedUnderstanding_def Let_def fun_upd_idem
      split: prod.splits option.splits reply.splits)

lemma normalize_no_properties:
  "normalize_understanding no_properties
     = \<lparr>intent = ''search'', category = None, keywords_u = [], correctedQuery = None,
        expandedTerms = [], synonyms = [], didYouMean = None\<rparr>"
  by (simp add: normalize_understanding_def no_properties_def or_else_def or_empty_def)

lemma understandQuery_miss_replied:
  assumes "trim query \<noteq> []"
      and "\<not> isCacheValid (c_understandQuery cs (getQueryCacheKey digest query))
               TTL_UNDERSTAND_QUERY now"
      and "svc query = Replied parsed"
  shows "understandQuery digest svc now stored query cs =
           (normalize_understanding parsed,
            cacheUnderstanding digest stored query (normalize_understanding parsed) cs,
            1)"
  using assms trim_nonempty[OF assms(1)]
  by (auto simp: understandQuery_def getCachedUnderstanding_def cacheUnderstanding_def Let_def
      split: prod.splits option.splits reply.splits)

text \<open>
  C9, as the code has it. Take a query that is not blank and has no valid cache entry.
  When the call of the understanding service raises (the call is rejected or the
  completion is unusable), \<^verbatim>\<open>understandQuery\<close> returns the record with intent
  \<^verbatim>\<open>search\<close>, no category, the non-empty pieces of the query split at white space as
  keywords, no expanded terms, no synonyms, no corrected query and no suggestion,
  whatever the caches hold for other queries; it calls the service once and writes
  nothing: the caches are the ones it was given, less the expired entry of this query if
  there was one. The keywords are the words of the query: none is empty or contains
  white space, and together they are the characters of the query that are not white
  space. When the service returns a completion whose content is missing or is not JSON,
  the content is read as the object without properties: the value is the record with
  intent \<^verbatim>\<open>search\<close> and no keywords, and it is stored in the cache under the key of
  the query.
\<close>

theorem understandQuery_failure_fallback:
  assumes "trim query \<noteq> []"
      and "\<not> isCacheValid (c_understandQuery cs (getQueryCacheKey digest query))
               TTL_UNDERSTAND_QUERY now"
  shows "(svc query = Throws \<longrightarrow>
            understandQuery digest svc now stored query cs =
              (\<lparr>intent = ''search'', category = None,
                keywords_u = filter (\<lambda>w. w \<noteq> []) (split_ws query),
                correctedQuery = None, expandedTerms = [], synonyms = [], didYouMean = None\<rparr>,
               cs\<lparr>c_understandQuery :=
                    (c_understandQuery cs)(getQueryCacheKey digest query := None)\<rparr>,
               1))
       \<and> (svc query = Replied no_properties \<longrightarrow>
            understandQuery digest svc now stored query cs =
              (\<lparr>intent = ''search'', category = None, keywords_u = [],
                correctedQuery = None, expandedTerms = [], synonyms = [], didYouMean = None\<rparr>,
               cs\<lparr>c_understandQuery :=
                    (c_understandQuery cs)
                      (getQueryCacheKey digest query \<mapsto>
                         \<lparr>data = \<lparr>intent = ''search'', category = None, keywords_u = [],
                                   correctedQuery = None, expandedTerms = [], synonyms = [],
                                   didYouMean = None\<rparr>,
                          timestamp = stored\<rparr>)\<rparr>,
               1))
       \<and> concat (filter (\<lambda>w. w \<noteq> []) (split_ws query)) = filter (\<lambda>c. \<not> is_ws c) query
       \<and> (\<forall>w \<in> set (filter (\<lambda>w. w \<noteq> []) (split_ws query)).
             w \<noteq> [] \<and> (\<forall>c \<in> set w. \<not> is_ws c))"
proof (intro conjI impI)
  assume "svc query = Throws"
  from understandQuery_miss_throws[where svc = svc, OF assms this]
  show "understandQuery digest svc now stored query cs =
           (\<lparr>intent = ''search'', category = None,
             keywords_u = filter (\<lambda>w. w \<noteq> []) (split_ws query),
             correctedQuery = None, expandedTerms = [], synonyms = [], didYouMean = None\<rparr>,
            cs\<lparr>c_understandQuery := (c_understandQuery cs)(getQueryCacheKey digest query := None)\<rparr>,
            1)"
    by (simp add: fallback_understanding_def)
next
  assume "svc query = Replied no_properties"
  from understandQuery_miss_replied[where svc = svc, OF assms this]
  show "understandQuery digest svc now stored query cs =
              (\<lparr>intent = ''search'', category = None, keywords_u = [],
                correctedQuery = None, expandedTerms = [], synonyms = [], didYouMean = None\<rparr>,
               cs\<lparr>c_understandQuery :=
                    (c_understandQuery cs)
                      (getQueryCacheKey digest query \<mapsto>
                         \<lparr>data = \<lparr>intent = ''search'', category = None, keywords_u = [],
                                   correctedQuery = None, expandedTerms = [], synonyms = [],
                                   didYouMean = None\<rparr>,
                          timestamp = stored\<rparr>)\<rparr>,
               1)"
    by (simp add: normalize_no_properties cacheUnderstanding_def)
next
  show "concat (filter (\<lambda>w. w \<noteq> []) (split_ws query)) = filter (\<lambda>c. \<not> is_ws c) query"
    by (rule split_ws_words(1))
  show "\<forall>w \<in> set (filter (\<lambda>w. w \<noteq> []) (split_ws query)).
          w \<noteq> [] \<and> (\<forall>c \<in> set w. \<not> is_ws c)"
    by (rule split_ws_words(2))
qed

theorem understandQuery_failure_fallback_witness:
  "trim ''clinical data'' \<noteq> []
   \<and> \<not> isCacheValid
         (c_understandQuery warm_caches (getQueryCacheKey plain_digest ''clinical data''))
         TTL_UNDERSTAND_QUERY 1000
   \<and> understanding_down ''clinical data'' = Throws
   \<and> understandQuery plain_digest understanding_down 1000 1001 ''clinical data'' warm_caches =
           (\<lparr>intent = ''search'', category = None,
             keywords_u = [''clinical'', ''data''],
             correctedQuery = None, expandedTerms = [], synonyms = [], didYouMean = None\<rparr>,
            warm_caches\<lparr>c_understandQuery :=
                          (c_understandQuery warm_caches)(''clinical data'' := None)\<rparr>,
            1)
   \<and> understanding_garbled ''clinical data'' = Replied no_properties
   \<and> understandQuery plain_digest understanding_garbled 1000 1001 ''clinical data'' warm_caches =
           (\<lparr>intent = ''search'', category = None, keywords_u = [],
             correctedQuery = None, expandedTerms = [], synonyms = [], didYouMean = None\<rparr>,
            warm_caches\<lparr>c_understandQuery :=
                          (c_understandQuery warm_caches)
                            (''clinical data'' \<mapsto>
                               \<lparr>data = \<lparr>intent = ''search'', category = None, keywords_u = [],
                                         correctedQuery = None, expandedTerms = [],
                                         synonyms = [], didYouMean = None\<rparr>,
                                timestamp = 1001\<rparr>)\<rparr>,
            1)"
proof -
  have h1: "trim ''clinical data'' \<noteq> []" by code_simp
  have k: "getQueryCacheKey plain_digest ''clinical data'' = ''clinical data''" by code_simp
  have h2: "\<not> isCacheValid
               (c_understandQuery warm_caches (getQueryCacheKey plain_digest ''clinical data''))
               TTL_UNDERSTAND_QUERY 1000"
    by code_simp
  have h3: "understanding_down ''clinical data'' = Throws"
    by (simp add: understanding_down_def)
  have h4: "understanding_garbled ''clinical data'' = Replied no_properties"
    by (simp add: understanding_garbled_def)
  have w: "filter (\<lambda>w. w \<noteq> []) (split_ws ''clinical data'') = [''clinical'', ''data'']"
    by code_simp
  have a: "understandQuery plain_digest understanding_down 1000 1001 ''clinical data'' warm_caches =
           (\<lparr>intent = ''search'', category = None,
             keywords_u = [''clinical'', ''data''],
             correctedQuery = None, expandedTerms = [], synonyms = [], didYouMean = None\<rparr>,
            warm_caches\<lparr>c_understandQuery :=
                          (c_understandQuery warm_caches)(''clinical data'' := None)\<rparr>,
            1)"
    using understandQuery_failure_fallback[where svc = understanding_down
        and digest = plain_digest and query = "''clinical data''" and cs = warm_caches
        and now = 1000 and stored = 1001, OF h1 h2, THEN conjunct1] h3
    by (simp only: k w)
  have b: "understandQuery plain_digest understanding_garbled 1000 1001 ''clinical data'' warm_caches =
           (\<lparr>intent = ''search'', category = None, keywords_u = [],
             correctedQuery = None, expandedTerms = [], synonyms = [], didYouMean = None\<rparr>,
            warm_caches\<lparr>c_understandQuery :=
                          (c_understandQuery warm_caches)
                            (''clinical data'' \<mapsto>
                               \<lparr>data = \<lparr>intent = ''search'', category = None, keywords_u = [],
                                         correctedQuery = None, expandedTerms = [],
                                         synonyms = [], didYouMean = None\<rparr>,
                                timestamp = 1001\<rparr>)\<rparr>,
            1)"
    using understandQuery_failure_fallback[where svc = understanding_garbled
        and digest = plain_digest and query = "''clinical data''" and cs = warm_caches
        and now = 1000 and stored = 1001, OF h1 h2, THEN conjunct2, THEN conjunct1] h4
    by (simp only: k)
  show ?thesis
    using h1 h2 h3 h4 a b by (intro conjI)
qed

theorem understandQuery_failure_fallback_counterexample:
  "keywords_u (fst (understandQuery plain_digest understanding_garbled 1000 1001
                      ''clinical data'' empty_caches)) = []
   \<and> map_option data
       (c_understandQuery
          (fst (snd (understandQuery plain_digest understanding_garbled 1000 1001
                       ''clinical data'' empty_caches)))
          (getQueryCacheKey plain_digest ''clinical data''))
     = Some \<lparr>intent = ''search'', category = None, keywords_u = [], correctedQuery = None,
             expandedTerms = [], synonyms = [], didYouMean = None\<rparr>"
proof -
  have t: "trim ''clinical data'' \<noteq> []" by code_simp
  have u: "understandQuery plain_digest understanding_garbled 1000 1001 ''clinical data''
             empty_caches
           = (normalize_understanding no_properties,
              cacheUnderstanding plain_digest 1001 ''clinical data''
                (normalize_understanding no_properties) empty_caches,
              1)"
    by (rule understandQuery_fresh_reply[OF t]) (simp add: understanding_garbled_def)
  show ?thesis
    by (simp add: u normalize_no_properties cacheUnderstanding_def)
qed

text \<open>
  C4, as the code has it. Take any query and two calls of \<^verbatim>\<open>understandQuery\<close> on it, the
  second within the time to live of the entry that serves the query (the entry found
  valid by the first call, or else the one the first call stores). If the service does
  not fail in the first call, the two calls issue at most one service call between them
  and the second returns the value of the first; for a query that is not blank that
  value, whatever the service replied, is in the cache when the first call returns.
\<close>

theorem understandQuery_twice_cached:
  assumes "svc1 query \<noteq> Throws"
      and "if isCacheValid (c_understandQuery cs (getQueryCacheKey digest query))
                TTL_UNDERSTAND_QUERY now1
           then isCacheValid (c_understandQuery cs (getQueryCacheKey digest query))
                  TTL_UNDERSTAND_QUERY now2
           else stored1 \<noteq> 0 \<and> now2 - stored1 < TTL_UNDERSTAND_QUERY"
  shows "service_calls (understandQuery_twice digest svc1 now1 stored1 svc2 now2 stored2 query cs)
           \<le> 1
       \<and> second_value (understandQuery_twice digest svc1 now1 stored1 svc2 now2 stored2 query cs)
           = first_value (understandQuery_twice digest svc1 now1 stored1 svc2 now2 stored2 query cs)
       \<and> (trim query \<noteq> [] \<longrightarrow>
            map_option data
              (c_understandQuery
                 (caches_between
                    (understandQuery_twice digest svc1 now1 stored1 svc2 now2 stored2 query cs))
                 (getQueryCacheKey digest query))
            = Some (first_value
                      (understandQuery_twice digest svc1 now1 stored1 svc2 now2 stored2 query cs)))"
proof (cases "query = [] \<or> length (trim query) = 0")
  case True
  then show ?thesis
    by (auto simp: understandQuery_twice_def understandQuery_def trim_def)
next
  case False
  show ?thesis
  proof (cases "isCacheValid (c_understandQuery cs (getQueryCacheKey digest query))
                  TTL_UNDERSTAND_QUERY now1")
    case True
    with assms(2)
    have v2: "isCacheValid (c_understandQuery cs (getQueryCacheKey digest query))
                TTL_UNDERSTAND_QUERY now2"
      by simp
    from True obtain e where e: "c_understandQuery cs (getQueryCacheKey digest query) = Some e"
      by (auto simp: isCacheValid_def split: option.splits)
    show ?thesis using False True v2 e
      by (simp add: understandQuery_twice_def understandQuery_def getCachedUnderstanding_def
            Let_def)
  next
    case miss: False
    with assms(2) have fresh: "stored1 \<noteq> 0" "now2 - stored1 < TTL_UNDERSTAND_QUERY"
      by simp_all
    from assms(1) obtain parsed where p: "svc1 query = Replied parsed"
      by (cases "svc1 query") auto
    show ?thesis using False miss fresh p
      by (auto simp: understandQuery_twice_def understandQuery_def getCachedUnderstanding_def
            Let_def cacheUnderstanding_def isCacheValid_def split: option.splits)
  qed
qed

theorem understandQuery_twice_cached_witness:
  "understanding_up ''spm'' \<noteq> Throws
   \<and> (if isCacheValid (c_understandQuery empty_caches (getQueryCacheKey plain_digest ''spm''))
            TTL_UNDERSTAND_QUERY 1000
       then isCacheValid (c_understandQuery empty_caches (getQueryCacheKey plain_digest ''spm''))
              TTL_UNDERSTAND_QUERY 2000
       else (1001::int) \<noteq> 0 \<and> (2000::int) - 1001 < TTL_UNDERSTAND_QUERY)
   \<and> trim ''spm'' \<noteq> []
   \<and> service_calls (understandQuery_twice plain_digest understanding_up 1000 1001
                       understanding_down 2000 2001 ''spm'' empty_caches) \<le> 1
   \<and> second_value (understandQuery_twice plain_digest understanding_up 1000 1001
                      understanding_down 2000 2001 ''spm'' empty_caches)
       = first_value (understandQuery_twice plain_digest understanding_up 1000 1001
                        understanding_down 2000 2001 ''spm'' empty_caches)
   \<and> map_option data
        (c_understandQuery
           (caches_between (understandQuery_twice plain_digest understanding_up 1000 1001
                              understanding_down 2000 2001 ''spm'' empty_caches))
           (getQueryCacheKey plain_digest ''spm''))
       = Some (first_value (understandQuery_twice plain_digest understanding_up 1000 1001
                              understanding_down 2000 2001 ''spm'' empty_caches))"
proof -
  have h1: "understanding_up ''spm'' \<noteq> Throws"
    by (simp add: understanding_up_def)
  have h2: "if isCacheValid (c_understandQuery empty_caches (getQueryCacheKey plain_digest ''spm''))
                 TTL_UNDERSTAND_QUERY 1000
            then isCacheValid (c_understandQuery empty_caches (getQueryCacheKey plain_digest ''spm''))
                   TTL_UNDERSTAND_QUERY 2000
            else (1001::int) \<noteq> 0 \<and> (2000::int) - 1001 < TTL_UNDERSTAND_QUERY"
    by (simp add: empty_caches_def isCacheValid_def TTL_UNDERSTAND_QUERY_def)
  have h3: "trim ''spm'' \<noteq> []"
    by (simp add: trim_def is_ws_def)
  show ?thesis
    using understandQuery_twice_cached[where ?svc1.0 = understanding_up
        and ?svc2.0 = understanding_down and ?stored2.0 = 2001 and digest = plain_digest
        and query = "''spm''" and cs = empty_caches and ?now1.0 = 1000 and ?now2.0 = 2000
        and ?stored1.0 = 1001, OF h1 h2] h1 h2 h3
    by simp
qed

theorem understandQuery_twice_counterexample:
  "service_calls (understandQuery_twice plain_digest understanding_down 1000 1001
                    understanding_up 2000 2001 ''spm'' empty_caches) = 2
   \<and> second_value (understandQuery_twice plain_digest understanding_down 1000 1001
                      understanding_up 2000 2001 ''spm'' empty_caches)
       \<noteq> first_value (understandQuery_twice plain_digest understanding_down 1000 1001
                         understanding_up 2000 2001 ''spm'' empty_caches)"
proof -
  have t: "trim ''spm'' \<noteq> []"
    by (simp add: trim_def is_ws_def)
  have m: "\<not> isCacheValid (c_understandQuery empty_caches (getQueryCacheKey plain_digest ''spm''))
               TTL_UNDERSTAND_QUERY now" for now
    by (simp add: empty_caches_def isCacheValid_def)
  have c: "empty_caches\<lparr>c_understandQuery :=
               (c_understandQuery empty_caches)(getQueryCacheKey plain_digest ''spm'' := None)\<rparr>
           = empty_caches"
    by (simp add: empty_caches_def)
  have first: "understandQuery plain_digest understanding_down 1000 1001 ''spm'' empty_caches
                 = (fallback_understanding ''spm'', empty_caches, 1)"
    using understandQuery_miss_throws[where svc = understanding_down and digest = plain_digest
        and cs = empty_caches, OF t m] c
    by (simp add: understanding_down_def)
  have second: "understandQuery plain_digest understanding_up 2000 2001 ''spm'' empty_caches
                  = (normalize_understanding spm_parsed,
                     cacheUnderstanding plain_digest 2001 ''spm''
                       (normalize_understanding spm_parsed) empty_caches, 1)"
    by (rule understandQuery_fresh_reply[OF t]) (simp add: understanding_up_def)
  have ne: "normalize_understanding spm_parsed \<noteq> fallback_understanding ''spm''"
    by (simp add: normalize_understanding_def fallback_understanding_def spm_parsed_def
          or_empty_def)
  show ?thesis
    by (simp add: understandQuery_twice_def first second ne)
qed


section \<open>Ranking\<close>

lemma rankResults_miss_throws:
  assumes "rs \<noteq> []" and "length rs \<le> 20"
      and "c_ranking cs (getResultsCacheKey digest query rs) = None"
      and "svc query rs il = Throws"
  shows "rankResults digest svc now stored query rs il cs = (rs, cs, 1)"
  using assms
  by (simp add: rankResults_def getCachedRanking_def isCacheValid_def Let_def)


text \<open>
  C1, at the failing input. For the query \<^verbatim>\<open>spm\<close> and the two results a and b, a
  reply of the ranking service with the indices 0, 0 has the length of the input and is
  accepted: the output is a, a; b is lost and a is doubled. A reply with the indices 1, 5
  is accepted too: the output is b alone.
\<close>

theorem rankResults_accepts_non_permutation:
  "fst (rankResults plain_digest ranking_repeats 1000 1001 ''spm''
          [page_of ''a'', page_of ''b''] ''search'' empty_caches)
     = [page_of ''a'', page_of ''a'']
   \<and> fst (rankResults plain_digest ranking_out_of_range 1000 1001 ''spm''
            [page_of ''a'', page_of ''b''] ''search'' empty_caches)
     = [page_of ''b'']
   \<and> page_of ''a'' \<noteq> page_of ''b''"
  by (simp add: rankResults_def getCachedRanking_def key_spm_ab empty_caches_def
        isCacheValid_def ranking_repeats_def ranking_out_of_range_def or_empty_def
        pick_ranked_def List.map_filter_simps at_index_def Let_def page_of_inject)





section \<open>The overview\<close>

lemma trim_overview: "trim '' i2e offers SPM services. '' = ''i2e offers SPM services.''"
  by (simp add: trim_def is_ws_def)

lemma overview_failed_first:
  "generateOverview plain_digest overview_down 1000 1001 ''spm'' [page_of ''a''] ''search''
     empty_caches
   = (None, empty_caches, 1)"
  by (simp add: generateOverview_def getCachedOverview_def key_spm_a empty_caches_def
        isCacheValid_def overview_down_def Let_def)

lemma overview_fresh:
  "generateOverview plain_digest overview_up 2000 2001 ''spm'' [page_of ''a''] ''search''
     empty_caches
   = (Some ''i2e offers SPM services.'',
      cacheOverview plain_digest 2001 ''spm'' [page_of ''a'']
        (Some ''i2e offers SPM services.'') empty_caches,
      1)"
  by (simp add: generateOverview_def getCachedOverview_def key_spm_a empty_caches_def
        isCacheValid_def overview_up_def trim_overview or_else_def Let_def)

lemma overview_silent_first:
  "generateOverview plain_digest overview_silent 1000 1001 ''spm'' [page_of ''a''] ''search''
     empty_caches
   = (None, cacheOverview plain_digest 1001 ''spm'' [page_of ''a''] None empty_caches, 1)"
  by (simp add: generateOverview_def getCachedOverview_def key_spm_a empty_caches_def
        isCacheValid_def overview_silent_def or_else_def Let_def)

text \<open>A cached \<^verbatim>\<open>null\<close> is not told apart from a missing entry: the next call within the
  time to live asks the service again.\<close>

lemma overview_after_null:
  "generateOverview plain_digest overview_up 2000 2001 ''spm'' [page_of ''a''] ''search''
     (cacheOverview plain_digest 1001 ''spm'' [page_of ''a''] None empty_caches)
   = (Some ''i2e offers SPM services.'',
      cacheOverview plain_digest 2001 ''spm'' [page_of ''a'']
        (Some ''i2e offers SPM services.'')
        (cacheOverview plain_digest 1001 ''spm'' [page_of ''a''] None empty_caches),
      1)"
  by (simp add: generateOverview_def getCachedOverview_def cacheOverview_def key_spm_a
        empty_caches_def isCacheValid_def TTL_OVERVIEW_def overview_up_def trim_overview
        or_else_def Let_def)

text \<open>
  C5, as the code has it. For a query that is not empty and a result list that is not
  empty: when the cache holds a valid entry whose value is a string, \<^verbatim>\<open>generateOverview\<close>
  returns that string as it is, without calling the service and without touching the
  caches; when there is no valid entry and the service fails, it returns \<^verbatim>\<open>null\<close>
  (a value, not an error) after one call and stores nothing: the caches are the ones it
  was given, less the expired entry of this key if there was one.
\<close>

theorem generateOverview_hit_and_failure:
  assumes "query \<noteq> []" and "topResults \<noteq> []"
  shows "(c_overview cs (getResultsCacheKey digest query topResults) = Some e
          \<and> isCacheValid (Some e) TTL_OVERVIEW now \<and> data e = Some v
          \<longrightarrow> generateOverview digest svc now stored query topResults il cs = (Some v, cs, 0))
       \<and> (\<not> isCacheValid (c_overview cs (getResultsCacheKey digest query topResults))
                TTL_OVERVIEW now
          \<and> svc query (take 5 topResults) il = Throws
          \<longrightarrow> generateOverview digest svc now stored query topResults il cs
                = (None,
                   cs\<lparr>c_overview :=
                        (c_overview cs)(getResultsCacheKey digest query topResults := None)\<rparr>,
                   1))"
  using assms
  by (auto simp: generateOverview_def getCachedOverview_def Let_def fun_upd_idem
      split: option.splits)

theorem generateOverview_hit_and_failure_witness:
  "''spm'' \<noteq> [] \<and> [page_of ''a''] \<noteq> []
   \<and> c_overview told_caches (getResultsCacheKey plain_digest ''spm'' [page_of ''a''])
       = Some \<lparr>data = Some ''i2e offers SPM services.'', timestamp = 1001\<rparr>
   \<and> isCacheValid (Some \<lparr>data = Some ''i2e offers SPM services.'', timestamp = 1001\<rparr>)
         TTL_OVERVIEW 2000
   \<and> generateOverview plain_digest overview_down 2000 2001 ''spm'' [page_of ''a''] ''search''
         told_caches
       = (Some ''i2e offers SPM services.'', told_caches, 0)
   \<and> \<not> isCacheValid
         (c_overview empty_caches (getResultsCacheKey plain_digest ''spm'' [page_of ''a'']))
         TTL_OVERVIEW 1000
   \<and> overview_down ''spm'' (take 5 [page_of ''a'']) ''search'' = Throws
   \<and> generateOverview plain_digest overview_down 1000 1001 ''spm'' [page_of ''a''] ''search''
         empty_caches
       = (None, empty_caches\<lparr>c_overview := (c_overview empty_caches)(''spm|a'' := None)\<rparr>, 1)"
proof -
  have h1: "''spm'' \<noteq> []" by simp
  have h2: "[page_of ''a''] \<noteq> []" by simp
  have a1: "c_overview told_caches (getResultsCacheKey plain_digest ''spm'' [page_of ''a''])
       = Some \<lparr>data = Some ''i2e offers SPM services.'', timestamp = 1001\<rparr>"
    by (simp add: told_caches_def cacheOverview_def)
  have a2: "isCacheValid (Some \<lparr>data = Some ''i2e offers SPM services.'', timestamp = 1001\<rparr>)
              TTL_OVERVIEW 2000"
    by (simp add: isCacheValid_def TTL_OVERVIEW_def)
  have b1: "\<not> isCacheValid
               (c_overview empty_caches (getResultsCacheKey plain_digest ''spm'' [page_of ''a'']))
               TTL_OVERVIEW 1000"
    by (simp add: empty_caches_def isCacheValid_def)
  have b2: "overview_down ''spm'' (take 5 [page_of ''a'']) ''search'' = Throws"
    by (simp add: overview_down_def)
  show ?thesis
    using generateOverview_hit_and_failure[where digest = plain_digest and svc = overview_down
            and cs = told_caches and now = 2000 and stored = 2001 and il = "''search''"
            and e = "\<lparr>data = Some ''i2e offers SPM services.'', timestamp = 1001\<rparr>"
            and v = "''i2e offers SPM services.''", OF h1 h2]
          generateOverview_hit_and_failure[where digest = plain_digest and svc = overview_down
            and cs = empty_caches and now = 1000 and stored = 1001 and il = "''search''",
            OF h1 h2]
          a1 a2 b1 b2
    by (simp add: key_spm_a)
qed

theorem generateOverview_counterexample:
  "c_overview (fst (snd (generateOverview plain_digest overview_down 1000 1001 ''spm''
                           [page_of ''a''] ''search'' empty_caches)))
     (getResultsCacheKey plain_digest ''spm'' [page_of ''a'']) = None
   \<and> snd (snd (generateOverview plain_digest overview_up 2000 2001 ''spm'' [page_of ''a'']
                  ''search''
                  (fst (snd (generateOverview plain_digest overview_down 1000 1001 ''spm''
                               [page_of ''a''] ''search'' empty_caches))))) = 1
   \<and> map_option data
       (c_overview (fst (snd (generateOverview plain_digest overview_silent 1000 1001 ''spm''
                                [page_of ''a''] ''search'' empty_caches)))
          (getResultsCacheKey plain_digest ''spm'' [page_of ''a''])) = Some None
   \<and> snd (snd (generateOverview plain_digest overview_up 2000 2001 ''spm'' [page_of ''a'']
                  ''search''
                  (fst (snd (generateOverview plain_digest overview_silent 1000 1001 ''spm''
                               [page_of ''a''] ''search'' empty_caches))))) = 1"
  unfolding overview_failed_first overview_silent_first
  by (simp add: overview_fresh overview_after_null) (simp add: empty_caches_def cacheOverview_def)


section \<open>The query builder\<close>

lemma termClauses_cases:
  assumes "c \<in> set (termClauses t)"
  shows "c = Match_phrase Title t 10 \<or> c = Match_phrase Content t 8
       \<or> c = Match_phrase Description t 6 \<or> c = Match_phrase Page_description t 7
       \<or> c = Match Title t 5 \<or> c = Match Content t 3 \<or> c = Match Description t 2
       \<or> c = Match Page_description t 4
       \<or> (3 \<le> length t
           \<and> (c = Match_phrase_prefix Title t 4 50 \<or> c = Prefix Title (toLowerCase t) 3))
       \<or> c = Wildcard Url (''*'' @ replace_ws t @ ''*'') 7 True"
  using assms by (auto simp: termClauses_def split: if_splits)

lemma should_cases:
  assumes "c \<in> set (should (buildElasticsearchQuery u cf))"
  shows "c = Match_all
       \<or> (\<exists>t \<in> set (searchTerms u). trim t \<noteq> [] \<and> c \<in> set (termClauses t))"
  using assms
  by (auto simp: buildElasticsearchQuery_def Let_def termClauses_def split: if_splits)

lemma should_tiered:
  assumes "c \<in> set (should (buildElasticsearchQuery u cf))" and "tier_of c \<noteq> None"
  shows "\<exists>t. c \<in> set (termClauses t)"
  using should_cases[OF assms(1)] assms(2) by auto

lemma should_contains:
  assumes "t \<in> set (searchTerms u)" and "c \<in> set (termClauses t)"
  shows "c \<in> set (should (buildElasticsearchQuery u cf))"
proof -
  from assms have "c \<in> set (concat (map termClauses (searchTerms u)))" by auto
  moreover from this have "concat (map termClauses (searchTerms u)) \<noteq> []"
    by (metis empty_iff empty_set)
  ultimately show ?thesis by (simp add: buildElasticsearchQuery_def Let_def)
qed

text \<open>
  C3, as the code has it. Among the clauses of any query the builder emits: every
  exact-phrase boost is above every full-match boost; in the exact-phrase tier and in
  the full-match tier the title has the highest boost and the description the lowest;
  in the full-match tier the page description is above the content; a prefix clause is
  always on the title and below the full match on the title; a wildcard clause is always
  on the url with boost 7.
\<close>

theorem boosts_by_field_and_tier:
  "\<forall>c \<in> set (should (buildElasticsearchQuery u cf)).
   \<forall>d \<in> set (should (buildElasticsearchQuery u cf)).
     (tier_of c = Some Exact_phrase \<and> tier_of d = Some Full_match \<longrightarrow> boost d < boost c)
   \<and> (tier_of c = tier_of d \<and> (tier_of c = Some Exact_phrase \<or> tier_of c = Some Full_match)
        \<and> clause_field c = Some Title \<and> clause_field d \<noteq> Some Title \<longrightarrow> boost d < boost c)
   \<and> (tier_of c = tier_of d \<and> (tier_of c = Some Exact_phrase \<or> tier_of c = Some Full_match)
        \<and> clause_field d = Some Description \<and> clause_field c \<noteq> Some Description
        \<longrightarrow> boost d < boost c)
   \<and> (tier_of c = Some Full_match \<and> tier_of d = Some Full_match
        \<and> clause_field c = Some Page_description \<and> clause_field d = Some Content
        \<longrightarrow> boost d < boost c)
   \<and> (tier_of c = Some Full_match \<and> clause_field c = Some Title \<and> tier_of d = Some Prefix_tier
        \<longrightarrow> clause_field d = Some Title \<and> boost d < boost c)
   \<and> (tier_of c = Some Wildcard_tier \<longrightarrow> clause_field c = Some Url \<and> boost c = 7)"
proof (intro ballI)
  fix c d
  assume c: "c \<in> set (should (buildElasticsearchQuery u cf))"
     and d: "d \<in> set (should (buildElasticsearchQuery u cf))"
  have cc: "tier_of c \<noteq> None \<Longrightarrow> \<exists>t. c \<in> set (termClauses t)"
    using should_tiered[OF c] by simp
  have dd: "tier_of d \<noteq> None \<Longrightarrow> \<exists>t. d \<in> set (termClauses t)"
    using should_tiered[OF d] by simp
  show "(tier_of c = Some Exact_phrase \<and> tier_of d = Some Full_match \<longrightarrow> boost d < boost c)
   \<and> (tier_of c = tier_of d \<and> (tier_of c = Some Exact_phrase \<or> tier_of c = Some Full_match)
        \<and> clause_field c = Some Title \<and> clause_field d \<noteq> Some Title \<longrightarrow> boost d < boost c)
   \<and> (tier_of c = tier_of d \<and> (tier_of c = Some Exact_phrase \<or> tier_of c = Some Full_match)
        \<and> clause_field d = Some Description \<and> clause_field c \<noteq> Some Description
        \<longrightarrow> boost d < boost c)
   \<and> (tier_of c = Some Full_match \<and> tier_of d = Some Full_match
        \<and> clause_field c = Some Page_description \<and> clause_field d = Some Content
        \<longrightarrow> boost d < boost c)
   \<and> (tier_of c = Some Full_match \<and> clause_field c = Some Title \<and> tier_of d = Some Prefix_tier
        \<longrightarrow> clause_field d = Some Title \<and> boost d < boost c)
   \<and> (tier_of c = Some Wildcard_tier \<longrightarrow> clause_field c = Some Url \<and> boost c = 7)"
  proof (cases "tier_of c = None \<or> tier_of d = None")
    case True
    then show ?thesis
    proof
      assume "tier_of c = None"
      then show ?thesis by simp
    next
      assume n: "tier_of d = None"
      show ?thesis
      proof (cases "tier_of c = None")
        case True
        then show ?thesis by simp
      next
        case False
        then obtain t where "c \<in> set (termClauses t)" using cc by blast
        from termClauses_cases[OF this] n show ?thesis by auto
      qed
    qed
  next
    case False
    then obtain t s where tc: "c \<in> set (termClauses t)" and sd: "d \<in> set (termClauses s)"
      using cc dd by blast
    from termClauses_cases[OF tc] termClauses_cases[OF sd] show ?thesis
      by (elim disjE conjE) simp_all
  qed
qed

theorem boosts_by_field_and_tier_witness:
  "Match_phrase Description ''spm'' 6 \<in> set (should (buildElasticsearchQuery short_and_long None))
   \<and> Match Title ''ai'' 5 \<in> set (should (buildElasticsearchQuery short_and_long None))
   \<and> Match Page_description ''spm'' 4 \<in> set (should (buildElasticsearchQuery short_and_long None))
   \<and> Match Content ''spm'' 3 \<in> set (should (buildElasticsearchQuery short_and_long None))
   \<and> Prefix Title ''spm'' 3 \<in> set (should (buildElasticsearchQuery short_and_long None))
   \<and> Wildcard Url ''*ai*'' 7 True \<in> set (should (buildElasticsearchQuery short_and_long None))
   \<and> boost (Match Title ''ai'' 5) < boost (Match_phrase Description ''spm'' 6)
   \<and> boost (Match Page_description ''spm'' 4) < boost (Match Title ''ai'' 5)
   \<and> boost (Match Content ''spm'' 3) < boost (Match Page_description ''spm'' 4)
   \<and> boost (Prefix Title ''spm'' 3) < boost (Match Title ''ai'' 5)
   \<and> clause_field (Wildcard Url ''*ai*'' 7 True) = Some Url
   \<and> boost (Wildcard Url ''*ai*'' 7 True) = 7"
proof -
  have m1: "Match_phrase Description ''spm'' 6
              \<in> set (should (buildElasticsearchQuery short_and_long None))"
   and m2: "Match Title ''ai'' 5 \<in> set (should (buildElasticsearchQuery short_and_long None))"
   and m3: "Match Page_description ''spm'' 4
              \<in> set (should (buildElasticsearchQuery short_and_long None))"
   and m4: "Match Content ''spm'' 3 \<in> set (should (buildElasticsearchQuery short_and_long None))"
   and m5: "Prefix Title ''spm'' 3 \<in> set (should (buildElasticsearchQuery short_and_long None))"
   and m6: "Wildcard Url ''*ai*'' 7 True
              \<in> set (should (buildElasticsearchQuery short_and_long None))"
    by (simp_all add: should_short_and_long termClauses_ai termClauses_spm)
  show ?thesis
    using boosts_by_field_and_tier[of short_and_long None, THEN bspec, OF m1, THEN bspec, OF m2]
          boosts_by_field_and_tier[of short_and_long None, THEN bspec, OF m2, THEN bspec, OF m3]
          boosts_by_field_and_tier[of short_and_long None, THEN bspec, OF m3, THEN bspec, OF m4]
          boosts_by_field_and_tier[of short_and_long None, THEN bspec, OF m2, THEN bspec, OF m5]
          boosts_by_field_and_tier[of short_and_long None, THEN bspec, OF m6, THEN bspec, OF m6]
          m1 m2 m3 m4 m5 m6
    by simp
qed

theorem boosts_counterexample:
  "Match_phrase Page_description ''spm'' 7
     \<in> set (should (buildElasticsearchQuery short_and_long None))
   \<and> Match_phrase Content ''spm'' 8 \<in> set (should (buildElasticsearchQuery short_and_long None))
   \<and> boost (Match_phrase Page_description ''spm'' 7) < boost (Match_phrase Content ''spm'' 8)
   \<and> Prefix Title ''spm'' 3 \<in> set (should (buildElasticsearchQuery short_and_long None))
   \<and> Wildcard Url ''*spm*'' 7 True \<in> set (should (buildElasticsearchQuery short_and_long None))
   \<and> boost (Prefix Title ''spm'' 3) < boost (Wildcard Url ''*spm*'' 7 True)"
  by (simp add: should_short_and_long termClauses_spm)

text \<open>
  C8, as the code has it. In any query the builder emits, a prefix clause
  (\<^verbatim>\<open>match_phrase_prefix\<close> or \<^verbatim>\<open>prefix\<close>) comes from a term of length at least 3; a term
  shorter than 3 characters gets no prefix clause; a term of length at least 3 that is
  not blank gets both prefix clauses; and every term that is not blank, whatever its
  length, gets the wildcard clause on the url.
\<close>

theorem prefix_clauses_need_three_characters:
  "(\<forall>c \<in> set (should (buildElasticsearchQuery u cf)).
      tier_of c = Some Prefix_tier
      \<longrightarrow> (\<exists>t \<in> set (searchTerms u). 3 \<le> length t \<and> trim t \<noteq> [] \<and> c \<in> set (termClauses t)))
   \<and> (\<forall>t \<in> set (searchTerms u).
        (length t < 3 \<longrightarrow> (\<forall>c \<in> set (termClauses t). tier_of c \<noteq> Some Prefix_tier))
      \<and> (3 \<le> length t \<and> trim t \<noteq> []
           \<longrightarrow> Match_phrase_prefix Title t 4 50 \<in> set (should (buildElasticsearchQuery u cf))
             \<and> Prefix Title (toLowerCase t) 3 \<in> set (should (buildElasticsearchQuery u cf)))
      \<and> (trim t \<noteq> []
           \<longrightarrow> Wildcard Url (''*'' @ replace_ws t @ ''*'') 7 True
                 \<in> set (should (buildElasticsearchQuery u cf))))"
proof (intro conjI ballI impI)
  fix c
  assume c: "c \<in> set (should (buildElasticsearchQuery u cf))"
     and p: "tier_of c = Some Prefix_tier"
  from should_cases[OF c] p obtain t
    where t: "t \<in> set (searchTerms u)" "trim t \<noteq> []" "c \<in> set (termClauses t)"
    by auto
  from termClauses_cases[OF t(3)] p have "3 \<le> length t" by auto
  with t show "\<exists>t \<in> set (searchTerms u). 3 \<le> length t \<and> trim t \<noteq> [] \<and> c \<in> set (termClauses t)"
    by blast
next
  fix t c
  assume "length t < 3" and "c \<in> set (termClauses t)"
  with termClauses_cases[of c t] show "tier_of c \<noteq> Some Prefix_tier" by auto
next
  fix t
  assume t: "t \<in> set (searchTerms u)" and l: "3 \<le> length t \<and> trim t \<noteq> []"
  then have ne: "t \<noteq> []" by auto
  from l ne have "Match_phrase_prefix Title t 4 50 \<in> set (termClauses t)"
    by (simp add: termClauses_def)
  from should_contains[OF t this]
  show "Match_phrase_prefix Title t 4 50 \<in> set (should (buildElasticsearchQuery u cf))" .
next
  fix t
  assume t: "t \<in> set (searchTerms u)" and l: "3 \<le> length t \<and> trim t \<noteq> []"
  then have ne: "t \<noteq> []" by auto
  from l ne have "Prefix Title (toLowerCase t) 3 \<in> set (termClauses t)"
    by (simp add: termClauses_def)
  from should_contains[OF t this]
  show "Prefix Title (toLowerCase t) 3 \<in> set (should (buildElasticsearchQuery u cf))" .
next
  fix t
  assume t: "t \<in> set (searchTerms u)" and l: "trim t \<noteq> []"
  then have ne: "t \<noteq> []" using trim_nonempty by blast
  from l ne have "Wildcard Url (''*'' @ replace_ws t @ ''*'') 7 True \<in> set (termClauses t)"
    by (simp add: termClauses_def)
  from should_contains[OF t this]
  show "Wildcard Url (''*'' @ replace_ws t @ ''*'') 7 True
          \<in> set (should (buildElasticsearchQuery u cf))" .
qed

theorem prefix_clauses_need_three_characters_witness:
  "Prefix Title ''spm'' 3 \<in> set (should (buildElasticsearchQuery short_and_long None))
   \<and> tier_of (Prefix Title ''spm'' 3) = Some Prefix_tier
   \<and> ''spm'' \<in> set (searchTerms short_and_long) \<and> 3 \<le> length ''spm'' \<and> trim ''spm'' \<noteq> []
   \<and> Match_phrase_prefix Title ''spm'' 4 50
       \<in> set (should (buildElasticsearchQuery short_and_long None))
   \<and> ''ai'' \<in> set (searchTerms short_and_long) \<and> length ''ai'' < 3 \<and> trim ''ai'' \<noteq> []
   \<and> Match Title ''ai'' 5 \<in> set (termClauses ''ai'')
   \<and> tier_of (Match Title ''ai'' 5) \<noteq> Some Prefix_tier
   \<and> Wildcard Url ''*ai*'' 7 True \<in> set (should (buildElasticsearchQuery short_and_long None))"
proof -
  have s: "''spm'' \<in> set (searchTerms short_and_long)"
   and a: "''ai'' \<in> set (searchTerms short_and_long)"
    by (simp_all add: searchTerms_short_and_long)
  have p: "Prefix Title ''spm'' 3 \<in> set (should (buildElasticsearchQuery short_and_long None))"
    by (simp add: should_short_and_long termClauses_spm)
  have ts: "trim ''spm'' \<noteq> []" and ta: "trim ''ai'' \<noteq> []"
    by (simp_all add: trim_def is_ws_def)
  have ra: "replace_ws ''ai'' = ''ai''"
    by (simp add: replace_ws_def is_ws_def)
  have m: "Match Title ''ai'' 5 \<in> set (termClauses ''ai'')"
    by (simp add: termClauses_ai)
  show ?thesis
    using prefix_clauses_need_three_characters[of short_and_long None, THEN conjunct1,
            THEN bspec, OF p]
          prefix_clauses_need_three_characters[of short_and_long None, THEN conjunct2,
            THEN bspec, OF s]
          prefix_clauses_need_three_characters[of short_and_long None, THEN conjunct2,
            THEN bspec, OF a]
          s a p ts ta m
    by (simp add: ra)
qed

theorem wildcard_for_short_term_counterexample:
  "length ''ai'' < 3
   \<and> Wildcard Url ''*ai*'' 7 True \<in> set (should (buildElasticsearchQuery short_and_long None))
   \<and> tier_of (Wildcard Url ''*ai*'' 7 True) = Some Wildcard_tier"
  by (simp add: should_short_and_long termClauses_ai)


section \<open>The search handler\<close>

lemma search_blank_query:
  assumes "trim (or_empty (q req)) = []" and "trim (or_empty (category_param req)) \<noteq> []"
  shows "understand_calls (snd (search e t req cs)) = 0
       \<and> sent_query (snd (search e t req cs))
           = Some \<lparr>must = Some [Term Category (or_empty (category_param req))],
                   should = [Match_all], minimum_should_match = 0\<rparr>"
proof -
  have c: "or_empty (category_param req) \<noteq> []"
    using assms(2) by (rule trim_nonempty)
  have b: "buildElasticsearchQuery empty_understanding
             (targetCategory (or_empty (category_param req)) empty_understanding)
           = \<lparr>must = Some [Term Category (or_empty (category_param req))],
              should = [Match_all], minimum_should_match = 0\<rparr>"
    using c assms(2)
    by (simp add: buildElasticsearchQuery_def targetCategory_def empty_understanding_def
          or_else_def searchTerms_def Let_def)
  show ?thesis
    using c
    by (simp add: search_def Let_def understandQuery_blank[OF assms(1)] b
          split: es_reply.splits prod.splits)
qed

lemma search_page2:
  "fst (search typo_env noon page2_req empty_caches) = Inr page2_response"
proof -
  have tq: "trim ''clincal'' \<noteq> []"
    by (simp add: trim_def is_ws_def)
  have u: "understandQuery plain_digest understanding_typo 1000 1001 ''clincal'' empty_caches
             = (normalize_understanding typo_parsed,
                cacheUnderstanding plain_digest 1001 ''clincal''
                  (normalize_understanding typo_parsed) empty_caches,
                1)"
    by (rule understandQuery_fresh_reply[OF tq]) (simp add: understanding_typo_def)
  have r: "rankResults plain_digest ranking_down 1002 1003 ''clincal''
             [page_of ''a'', page_of ''b''] ''search''
             (cacheUnderstanding plain_digest 1001 ''clincal''
                (normalize_understanding typo_parsed) empty_caches)
           = ([page_of ''a'', page_of ''b''],
              cacheUnderstanding plain_digest 1001 ''clincal''
                (normalize_understanding typo_parsed) empty_caches,
              1)"
    by (rule rankResults_miss_throws)
       (simp_all add: cacheUnderstanding_def empty_caches_def ranking_down_def)
  have i: "intent (normalize_understanding typo_parsed) = ''search''"
          "category (normalize_understanding typo_parsed) = None"
          "keywords_u (normalize_understanding typo_parsed) = [''clinical'']"
          "expandedTerms (normalize_understanding typo_parsed) = []"
          "didYouMean (normalize_understanding typo_parsed) = Some ''clinical''"
    by (simp_all add: normalize_typo)
  show ?thesis
    using tq
    by (simp add: search_def page2_req_def typo_env_def noon_def or_empty_def int_or_def u
          two_hits_def map_hit_hit_of i r slice0_def no_buckets_def page2_response_def
          or_else_def Let_def)
qed

text \<open>
  C2, at the failing input. The understanding service classifies the query \<^verbatim>\<open>ppm\<close> as
  a plain search and detects the category \<^verbatim>\<open>blogs\<close>; the caller sends no category
  filter. The handler resolves no target category, yet the query the builder makes from
  that, and the one the handler sends to the index engine, requires the category
  \<^verbatim>\<open>blogs\<close>.
\<close>

theorem search_detected_category_reaches_query:
  "targetCategory [] (normalize_understanding blogs_parsed) = None
   \<and> must (buildElasticsearchQuery (normalize_understanding blogs_parsed)
             (targetCategory [] (normalize_understanding blogs_parsed)))
       = Some [Term Category ''blogs'']
   \<and> map_option must
       (sent_query (snd (search (quiet_env\<lparr>understand_svc := understanding_blogs\<rparr>) noon
                           ppm_req empty_caches)))
       = Some (Some [Term Category ''blogs''])"
proof -
  have t: "targetCategory [] (normalize_understanding blogs_parsed) = None"
    by (simp add: normalize_blogs targetCategory_def or_else_def)
  have m: "must (buildElasticsearchQuery (normalize_understanding blogs_parsed) None)
             = Some [Term Category ''blogs'']"
    by (simp add: normalize_blogs buildElasticsearchQuery_def or_else_def Let_def trim_def
          is_ws_def)
  have tq: "trim ''ppm'' \<noteq> []"
    by (simp add: trim_def is_ws_def)
  have u: "understandQuery plain_digest understanding_blogs 1000 1001 ''ppm'' empty_caches
             = (normalize_understanding blogs_parsed,
                cacheUnderstanding plain_digest 1001 ''ppm''
                  (normalize_understanding blogs_parsed) empty_caches,
                1)"
    by (rule understandQuery_fresh_reply[OF tq]) (simp add: understanding_blogs_def)
  have s: "sent_query (snd (search (quiet_env\<lparr>understand_svc := understanding_blogs\<rparr>) noon
                              ppm_req empty_caches))
            = Some (buildElasticsearchQuery (normalize_understanding blogs_parsed) None)"
    by (simp add: search_def ppm_req_def quiet_env_def noon_def or_empty_def int_or_def u t
          no_hits_def slice0_def Let_def)
  show ?thesis
    by (simp add: t m s)
qed

text \<open>
  C6, as the code has it. For every request whose page is not 1 and that is answered
  with status 200, the overview of the reply is \<^verbatim>\<open>null\<close> and the overview service is
  not called. The suggestion of the reply does not depend on the page: it is \<^verbatim>\<open>null\<close>
  when the request has neither query nor category, and otherwise the suggestion of the
  understanding, else its corrected query, else \<^verbatim>\<open>null\<close>.
\<close>

theorem search_later_page:
  assumes "int_or (page_param req) 1 \<noteq> 1" and "fst (search e t req cs) = Inr r"
  shows "resp_overview r = None
       \<and> overview_calls (snd (search e t req cs)) = 0
       \<and> resp_didYouMean r =
           (if or_empty (q req) = [] \<and> or_empty (category_param req) = [] then None
            else or_else
                   (or_else
                      (didYouMean (fst (understandQuery (env_md5 e) (understand_svc e)
                                          (t_understand t) (t_understand_stored t)
                                          (or_empty (q req)) cs)))
                      (correctedQuery (fst (understandQuery (env_md5 e) (understand_svc e)
                                              (t_understand t) (t_understand_stored t)
                                              (or_empty (q req)) cs))))
                   None)"
  using assms
  by (auto simp: search_def Let_def split: if_splits prod.splits es_reply.splits)

theorem search_later_page_witness:
  "int_or (page_param page2_req) 1 \<noteq> 1
   \<and> fst (search typo_env noon page2_req empty_caches) = Inr page2_response
   \<and> resp_overview page2_response = None
   \<and> overview_calls (snd (search typo_env noon page2_req empty_caches)) = 0"
proof -
  have h1: "int_or (page_param page2_req) 1 \<noteq> 1"
    by (simp add: page2_req_def int_or_def)
  show ?thesis
    using search_later_page[OF h1 search_page2] h1 search_page2
    by simp
qed

theorem search_later_page_counterexample:
  "int_or (page_param page2_req) 1 = 2
   \<and> fst (search typo_env noon page2_req empty_caches) = Inr page2_response
   \<and> resp_didYouMean page2_response = Some ''clinical''"
  by (simp add: search_page2) (simp add: page2_req_def page2_response_def int_or_def)

lemma termClauses_Nil_iff: "termClauses t = [] \<longleftrightarrow> trim t = []"
  by (auto simp: termClauses_def trim_def)

lemma searchTerms_nonblank:
  "(\<exists>t \<in> set (searchTerms u). trim t \<noteq> [])
   \<longleftrightarrow> (\<exists>t \<in> set (keywords_u u @ expandedTerms u @ synonyms u). trim t \<noteq> [])"
proof
  assume "\<exists>t \<in> set (searchTerms u). trim t \<noteq> []"
  then show "\<exists>t \<in> set (keywords_u u @ expandedTerms u @ synonyms u). trim t \<noteq> []"
    by (auto simp: searchTerms_def Let_def split: if_splits)
next
  assume "\<exists>t \<in> set (keywords_u u @ expandedTerms u @ synonyms u). trim t \<noteq> []"
  then obtain t where t: "t \<in> set (keywords_u u @ expandedTerms u @ synonyms u)"
    and n: "trim t \<noteq> []"
    by blast
  from n have "t \<noteq> []" by (rule trim_nonempty)
  with t have m: "t \<in> set (filter (\<lambda>t. t \<noteq> []) (keywords_u u @ expandedTerms u @ synonyms u))"
    by simp
  then have "filter (\<lambda>t. t \<noteq> []) (keywords_u u @ expandedTerms u @ synonyms u) \<noteq> []"
    by (metis empty_iff empty_set)
  with m have "t \<in> set (searchTerms u)"
    by (simp add: searchTerms_def Let_def)
  with n show "\<exists>t \<in> set (searchTerms u). trim t \<noteq> []"
    by blast
qed

lemma no_clauses_iff:
  "concat (map termClauses (searchTerms u)) = []
   \<longleftrightarrow> (\<forall>t \<in> set (keywords_u u @ expandedTerms u @ synonyms u). trim t = [])"
proof -
  have "concat (map termClauses (searchTerms u)) = []
        \<longleftrightarrow> \<not> (\<exists>t \<in> set (searchTerms u). trim t \<noteq> [])"
    by (simp add: termClauses_Nil_iff)
  then show ?thesis
    unfolding searchTerms_nonblank by blast
qed

lemma Match_all_not_emitted: "Match_all \<notin> set (concat (map termClauses ts))"
proof
  assume "Match_all \<in> set (concat (map termClauses ts))"
  then obtain t where "Match_all \<in> set (termClauses t)" by auto
  from termClauses_cases[OF this] show False by simp
qed

lemma search_blank_hits:
  assumes "trim (or_empty (q req)) = []" and "trim (or_empty (category_param req)) \<noteq> []"
      and "es_search e
             \<lparr>must = Some [Term Category (or_empty (category_param req))],
              should = [Match_all], minimum_should_match = 0\<rparr>
             (min (int_or (pageSize_param req) 10 * 2) 100)
             ((int_or (page_param req) 1 - 1) * int_or (pageSize_param req) 10)
           = Es_hits hs tot"
  shows "search e t req cs =
           (Inr \<lparr>resp_results = slice0 (map map_hit hs) (int_or (pageSize_param req) 10),
                 resp_total = (case tot of None \<Rightarrow> 0 | Some n \<Rightarrow> n),
                 resp_categoryCounts =
                   Some (count_categories
                           (es_aggregate e
                              \<lparr>must = Some [Term Category (or_empty (category_param req))],
                               should = [Match_all], minimum_should_match = 0\<rparr>)),
                 resp_page = int_or (page_param req) 1,
                 resp_pageSize = Some (int_or (pageSize_param req) 10),
                 resp_totalPages =
                   - ((- (case tot of None \<Rightarrow> 0 | Some n \<Rightarrow> n))
                        div int_or (pageSize_param req) 10),
                 resp_overview = None, resp_didYouMean = None,
                 resp_intent = Some ''search'',
                 resp_understanding = Some (None, [], [])\<rparr>,
            \<lparr>caches_after = cs, understand_calls = 0, rank_calls = 0, overview_calls = 0,
             sent_query =
               Some \<lparr>must = Some [Term Category (or_empty (category_param req))],
                     should = [Match_all], minimum_should_match = 0\<rparr>\<rparr>)"
proof -
  have c: "or_empty (category_param req) \<noteq> []"
    using assms(2) by (rule trim_nonempty)
  have b: "buildElasticsearchQuery empty_understanding
             (targetCategory (or_empty (category_param req)) empty_understanding)
           = \<lparr>must = Some [Term Category (or_empty (category_param req))],
              should = [Match_all], minimum_should_match = 0\<rparr>"
    using c assms(2)
    by (simp add: buildElasticsearchQuery_def targetCategory_def empty_understanding_def
          or_else_def searchTerms_def Let_def)
  have f: "intent empty_understanding = ''search''" "category empty_understanding = None"
          "keywords_u empty_understanding = []" "expandedTerms empty_understanding = []"
          "didYouMean empty_understanding = None" "correctedQuery empty_understanding = None"
    by (simp_all add: empty_understanding_def)
  show ?thesis
    using c assms(1)
    by (simp add: search_def Let_def understandQuery_blank[OF assms(1)] b assms(3) f
          or_else_def)
qed

lemma only_the_category:
  assumes "\<forall>h \<in> set hs. h_category h = Some c"
  shows "\<forall>r \<in> set (slice0 (map map_hit hs) n). res_category r = c"
proof
  fix r
  assume "r \<in> set (slice0 (map map_hit hs) n)"
  then have "r \<in> set (map map_hit hs)"
    by (auto simp: slice0_def dest: in_set_takeD split: if_splits)
  then obtain h where "h \<in> set hs" and "r = map_hit h" by auto
  with assms show "res_category r = c"
    by (simp add: map_hit_def or_empty_def)
qed

text \<open>
  C7. When every keyword, expanded term and synonym of the understanding is blank, the
  builder emits the single clause \<^verbatim>\<open>match_all\<close> with \<^verbatim>\<open>minimum_should_match\<close> 0; when
  one of them is not blank it emits the clauses of the terms, \<^verbatim>\<open>match_all\<close> not among
  them, with \<^verbatim>\<open>minimum_should_match\<close> 1. A request with a blank query and a category
  that is not blank does not call the understanding service and sends to the index
  engine the query that requires the category and, beyond that, matches every document.
  When the index engine answers that query with hits, the reply holds these hits in the
  order of the engine, cut to the page size: the ranking and the overview services are
  not called, the caches are left as they were, and the overview and the suggestion are
  \<^verbatim>\<open>null\<close>; if all the hits are of the category, as the query requires, so are all
  the results.
\<close>

theorem buildElasticsearchQuery_match_all:
  "((\<forall>x \<in> set (keywords_u u @ expandedTerms u @ synonyms u). trim x = [])
       \<longrightarrow> should (buildElasticsearchQuery u cf) = [Match_all]
         \<and> minimum_should_match (buildElasticsearchQuery u cf) = 0)
   \<and> ((\<exists>x \<in> set (keywords_u u @ expandedTerms u @ synonyms u). trim x \<noteq> [])
       \<longrightarrow> should (buildElasticsearchQuery u cf) = concat (map termClauses (searchTerms u))
         \<and> should (buildElasticsearchQuery u cf) \<noteq> []
         \<and> Match_all \<notin> set (should (buildElasticsearchQuery u cf))
         \<and> minimum_should_match (buildElasticsearchQuery u cf) = 1)
   \<and> (trim (or_empty (q req)) = [] \<and> trim (or_empty (category_param req)) \<noteq> []
       \<longrightarrow> understand_calls (snd (search e t req cs)) = 0
         \<and> sent_query (snd (search e t req cs))
             = Some \<lparr>must = Some [Term Category (or_empty (category_param req))],
                     should = [Match_all], minimum_should_match = 0\<rparr>)
   \<and> (trim (or_empty (q req)) = [] \<and> trim (or_empty (category_param req)) \<noteq> []
       \<and> es_search e
            \<lparr>must = Some [Term Category (or_empty (category_param req))],
             should = [Match_all], minimum_should_match = 0\<rparr>
            (min (int_or (pageSize_param req) 10 * 2) 100)
            ((int_or (page_param req) 1 - 1) * int_or (pageSize_param req) 10)
          = Es_hits hs tot
       \<longrightarrow> search e t req cs =
             (Inr \<lparr>resp_results = slice0 (map map_hit hs) (int_or (pageSize_param req) 10),
                   resp_total = (case tot of None \<Rightarrow> 0 | Some n \<Rightarrow> n),
                   resp_categoryCounts =
                     Some (count_categories
                             (es_aggregate e
                                \<lparr>must = Some [Term Category (or_empty (category_param req))],
                                 should = [Match_all], minimum_should_match = 0\<rparr>)),
                   resp_page = int_or (page_param req) 1,
                   resp_pageSize = Some (int_or (pageSize_param req) 10),
                   resp_totalPages =
                     - ((- (case tot of None \<Rightarrow> 0 | Some n \<Rightarrow> n))
                          div int_or (pageSize_param req) 10),
                   resp_overview = None, resp_didYouMean = None,
                   resp_intent = Some ''search'',
                   resp_understanding = Some (None, [], [])\<rparr>,
              \<lparr>caches_after = cs, understand_calls = 0, rank_calls = 0, overview_calls = 0,
               sent_query =
                 Some \<lparr>must = Some [Term Category (or_empty (category_param req))],
                       should = [Match_all], minimum_should_match = 0\<rparr>\<rparr>)
           \<and> ((\<forall>h \<in> set hs. h_category h = Some (or_empty (category_param req)))
                \<longrightarrow> (\<forall>r \<in> set (slice0 (map map_hit hs) (int_or (pageSize_param req) 10)).
                       res_category r = or_empty (category_param req))))"
proof (intro conjI impI)
  assume a: "\<forall>x \<in> set (keywords_u u @ expandedTerms u @ synonyms u). trim x = []"
  then have n: "concat (map termClauses (searchTerms u)) = []"
    by (simp only: no_clauses_iff)
  from n show "should (buildElasticsearchQuery u cf) = [Match_all]"
    by (simp add: buildElasticsearchQuery_def Let_def)
  from n show "minimum_should_match (buildElasticsearchQuery u cf) = 0"
    by (simp add: buildElasticsearchQuery_def Let_def)
next
  assume a: "\<exists>x \<in> set (keywords_u u @ expandedTerms u @ synonyms u). trim x \<noteq> []"
  have n: "concat (map termClauses (searchTerms u)) \<noteq> []"
  proof
    assume "concat (map termClauses (searchTerms u)) = []"
    then have "\<forall>x \<in> set (keywords_u u @ expandedTerms u @ synonyms u). trim x = []"
      by (simp only: no_clauses_iff)
    with a show False by blast
  qed
  from n show s: "should (buildElasticsearchQuery u cf) = concat (map termClauses (searchTerms u))"
    by (simp add: buildElasticsearchQuery_def Let_def)
  from n s show "should (buildElasticsearchQuery u cf) \<noteq> []"
    by simp
  show "Match_all \<notin> set (should (buildElasticsearchQuery u cf))"
    unfolding s by (rule Match_all_not_emitted)
  from n show "minimum_should_match (buildElasticsearchQuery u cf) = 1"
    by (simp add: buildElasticsearchQuery_def Let_def)
next
  assume "trim (or_empty (q req)) = [] \<and> trim (or_empty (category_param req)) \<noteq> []"
  then have b: "trim (or_empty (q req)) = []" and c: "trim (or_empty (category_param req)) \<noteq> []"
    by simp_all
  from search_blank_query[OF b c, of e t cs]
  show "understand_calls (snd (search e t req cs)) = 0"
   and "sent_query (snd (search e t req cs))
             = Some \<lparr>must = Some [Term Category (or_empty (category_param req))],
                     should = [Match_all], minimum_should_match = 0\<rparr>"
    by simp_all
next
  assume h: "trim (or_empty (q req)) = [] \<and> trim (or_empty (category_param req)) \<noteq> []
       \<and> es_search e
            \<lparr>must = Some [Term Category (or_empty (category_param req))],
             should = [Match_all], minimum_should_match = 0\<rparr>
            (min (int_or (pageSize_param req) 10 * 2) 100)
            ((int_or (page_param req) 1 - 1) * int_or (pageSize_param req) 10)
          = Es_hits hs tot"
  then have b: "trim (or_empty (q req)) = []" and c: "trim (or_empty (category_param req)) \<noteq> []"
    and es: "es_search e
            \<lparr>must = Some [Term Category (or_empty (category_param req))],
             should = [Match_all], minimum_should_match = 0\<rparr>
            (min (int_or (pageSize_param req) 10 * 2) 100)
            ((int_or (page_param req) 1 - 1) * int_or (pageSize_param req) 10)
          = Es_hits hs tot"
    by simp_all
  show "search e t req cs =
             (Inr \<lparr>resp_results = slice0 (map map_hit hs) (int_or (pageSize_param req) 10),
                   resp_total = (case tot of None \<Rightarrow> 0 | Some n \<Rightarrow> n),
                   resp_categoryCounts =
                     Some (count_categories
                             (es_aggregate e
                                \<lparr>must = Some [Term Category (or_empty (category_param req))],
                                 should = [Match_all], minimum_should_match = 0\<rparr>)),
                   resp_page = int_or (page_param req) 1,
                   resp_pageSize = Some (int_or (pageSize_param req) 10),
                   resp_totalPages =
                     - ((- (case tot of None \<Rightarrow> 0 | Some n \<Rightarrow> n))
                          div int_or (pageSize_param req) 10),
                   resp_overview = None, resp_didYouMean = None,
                   resp_intent = Some ''search'',
                   resp_understanding = Some (None, [], [])\<rparr>,
              \<lparr>caches_after = cs, understand_calls = 0, rank_calls = 0, overview_calls = 0,
               sent_query =
                 Some \<lparr>must = Some [Term Category (or_empty (category_param req))],
                       should = [Match_all], minimum_should_match = 0\<rparr>\<rparr>)"
    by (rule search_blank_hits[OF b c es])
next
  assume "\<forall>h \<in> set hs. h_category h = Some (or_empty (category_param req))"
  then show "\<forall>r \<in> set (slice0 (map map_hit hs) (int_or (pageSize_param req) 10)).
                       res_category r = or_empty (category_param req)"
    by (rule only_the_category)
qed

theorem buildElasticsearchQuery_match_all_witness:
  "keywords_u empty_understanding @ expandedTerms empty_understanding
     @ synonyms empty_understanding = []
   \<and> should (buildElasticsearchQuery empty_understanding (Some ''blogs'')) = [Match_all]
   \<and> minimum_should_match (buildElasticsearchQuery empty_understanding (Some ''blogs'')) = 0
   \<and> ''spm'' \<in> set (keywords_u short_and_long @ expandedTerms short_and_long
                        @ synonyms short_and_long)
   \<and> trim ''spm'' \<noteq> []
   \<and> Match_all \<notin> set (should (buildElasticsearchQuery short_and_long None))
   \<and> minimum_should_match (buildElasticsearchQuery short_and_long None) = 1
   \<and> trim (or_empty (q blogs_req)) = [] \<and> trim (or_empty (category_param blogs_req)) \<noteq> []
   \<and> es_search blogs_env
        \<lparr>must = Some [Term Category ''blogs''], should = [Match_all],
         minimum_should_match = 0\<rparr> 20 0
      = Es_hits [hit_of ''a'', hit_of ''b''] (Some 12)
   \<and> h_category (hit_of ''a'') = Some ''blogs'' \<and> h_category (hit_of ''b'') = Some ''blogs''
   \<and> search blogs_env noon blogs_req empty_caches
      = (Inr blogs_response,
         \<lparr>caches_after = empty_caches, understand_calls = 0, rank_calls = 0,
          overview_calls = 0,
          sent_query = Some \<lparr>must = Some [Term Category ''blogs''], should = [Match_all],
                              minimum_should_match = 0\<rparr>\<rparr>)
   \<and> res_category (page_of ''a'') = ''blogs'' \<and> res_category (page_of ''b'') = ''blogs''"
proof -
  have e0: "keywords_u empty_understanding @ expandedTerms empty_understanding
              @ synonyms empty_understanding = []"
    by (simp add: empty_understanding_def)
  have a0: "\<forall>x \<in> set (keywords_u empty_understanding @ expandedTerms empty_understanding
                          @ synonyms empty_understanding). trim x = []"
    by (simp add: e0)
  have s1: "''spm'' \<in> set (keywords_u short_and_long @ expandedTerms short_and_long
                               @ synonyms short_and_long)"
    by (simp add: short_and_long_def fallback_understanding_def split_ws_def is_ws_def)
  have s2: "trim ''spm'' \<noteq> []"
    by (simp add: trim_def is_ws_def)
  have a1: "\<exists>x \<in> set (keywords_u short_and_long @ expandedTerms short_and_long
                          @ synonyms short_and_long). trim x \<noteq> []"
    using s1 s2 by blast
  have h3: "trim (or_empty (q blogs_req)) = []"
    by (simp add: blogs_req_def or_empty_def trim_def)
  have c: "or_empty (category_param blogs_req) = ''blogs''"
    by (simp add: blogs_req_def or_empty_def)
  have h4: "trim (or_empty (category_param blogs_req)) \<noteq> []"
    by (simp add: c trim_def is_ws_def)
  have p: "int_or (page_param blogs_req) 1 = 1" "int_or (pageSize_param blogs_req) 10 = 10"
    by (simp_all add: blogs_req_def int_or_def)
  have es: "es_search blogs_env
              \<lparr>must = Some [Term Category ''blogs''], should = [Match_all],
               minimum_should_match = 0\<rparr> 20 0
            = Es_hits [hit_of ''a'', hit_of ''b''] (Some 12)"
    by (simp add: blogs_env_def two_hits_def)
  have es': "es_search blogs_env
               \<lparr>must = Some [Term Category (or_empty (category_param blogs_req))],
                should = [Match_all], minimum_should_match = 0\<rparr>
               (min (int_or (pageSize_param blogs_req) 10 * 2) 100)
               ((int_or (page_param blogs_req) 1 - 1) * int_or (pageSize_param blogs_req) 10)
             = Es_hits [hit_of ''a'', hit_of ''b''] (Some 12)"
    by (simp add: c p es)
  have hc: "h_category (hit_of ''a'') = Some ''blogs''" "h_category (hit_of ''b'') = Some ''blogs''"
    by (simp_all add: hit_of_def)
  have hs: "\<forall>h \<in> set [hit_of ''a'', hit_of ''b'']. h_category h
              = Some (or_empty (category_param blogs_req))"
    by (simp add: c hc)
  have sl: "slice0 (map map_hit [hit_of ''a'', hit_of ''b'']) 10 = [page_of ''a'', page_of ''b'']"
    by (simp add: slice0_def map_hit_hit_of)
  have ag: "es_aggregate blogs_env x = Agg_buckets [] (Some 0)" for x
    by (simp add: blogs_env_def no_buckets_def)
  note first = buildElasticsearchQuery_match_all[where u = empty_understanding
      and cf = "Some ''blogs''" and req = blogs_req and e = blogs_env and t = noon
      and cs = empty_caches and hs = "[hit_of ''a'', hit_of ''b'']" and tot = "Some 12"]
  note second = buildElasticsearchQuery_match_all[where u = short_and_long
      and cf = None and req = blogs_req and e = blogs_env and t = noon
      and cs = empty_caches and hs = "[hit_of ''a'', hit_of ''b'']" and tot = "Some 12"]
  from first a0
  have w1: "should (buildElasticsearchQuery empty_understanding (Some ''blogs'')) = [Match_all]"
       "minimum_should_match (buildElasticsearchQuery empty_understanding (Some ''blogs'')) = 0"
    by blast+
  from second a1
  have w2: "Match_all \<notin> set (should (buildElasticsearchQuery short_and_long None))"
       "minimum_should_match (buildElasticsearchQuery short_and_long None) = 1"
    by blast+
  from first h3 h4 es'
  have w3: "search blogs_env noon blogs_req empty_caches =
             (Inr \<lparr>resp_results = slice0 (map map_hit [hit_of ''a'', hit_of ''b''])
                                     (int_or (pageSize_param blogs_req) 10),
                   resp_total = (case Some 12 of None \<Rightarrow> 0 | Some n \<Rightarrow> n),
                   resp_categoryCounts =
                     Some (count_categories
                             (es_aggregate blogs_env
                                \<lparr>must = Some [Term Category (or_empty (category_param blogs_req))],
                                 should = [Match_all], minimum_should_match = 0\<rparr>)),
                   resp_page = int_or (page_param blogs_req) 1,
                   resp_pageSize = Some (int_or (pageSize_param blogs_req) 10),
                   resp_totalPages =
                     - ((- (case Some 12 of None \<Rightarrow> 0 | Some n \<Rightarrow> n))
                          div int_or (pageSize_param blogs_req) 10),
                   resp_overview = None, resp_didYouMean = None,
                   resp_intent = Some ''search'',
                   resp_understanding = Some (None, [], [])\<rparr>,
              \<lparr>caches_after = empty_caches, understand_calls = 0, rank_calls = 0,
               overview_calls = 0,
               sent_query =
                 Some \<lparr>must = Some [Term Category (or_empty (category_param blogs_req))],
                       should = [Match_all], minimum_should_match = 0\<rparr>\<rparr>)"
    by blast
  from first h3 h4 es' hs
  have w4: "\<forall>r \<in> set (slice0 (map map_hit [hit_of ''a'', hit_of ''b''])
                          (int_or (pageSize_param blogs_req) 10)).
              res_category r = or_empty (category_param blogs_req)"
    by blast
  have r1: "search blogs_env noon blogs_req empty_caches
      = (Inr blogs_response,
         \<lparr>caches_after = empty_caches, understand_calls = 0, rank_calls = 0,
          overview_calls = 0,
          sent_query = Some \<lparr>must = Some [Term Category ''blogs''], should = [Match_all],
                              minimum_should_match = 0\<rparr>\<rparr>)"
    unfolding w3 p c sl ag by (simp add: blogs_response_def)
  have r2: "res_category (page_of ''a'') = ''blogs''" "res_category (page_of ''b'') = ''blogs''"
    using w4 unfolding p c sl by simp_all
  show ?thesis
    using e0 w1 s1 s2 w2 h3 h4 es hc r1 r2 by (intro conjI)
qed

end
